theory Spec2Isabelle
  imports Main
begin

section \<open>Python values read from Key.json\<close>

text \<open>
  \<^verbatim>\<open>json.load\<close> returns an arbitrary JSON value, not necessarily an object and
  not necessarily with string members. Numbers are kept as integers (no claim depends on
  a fractional number). A dict is a map from its keys to its values; the order of the keys
  plays no role in \<^verbatim>\<open>load_key\<close>.
\<close>

datatype json =
    JNull
  | JBool bool
  | JNum int
  | JStr string
  | JArr "json list"
  | JObj "string \<Rightarrow> json option"

type_synonym dict = "string \<Rightarrow> json option"

text \<open>Python's truth value of an object, as tested by \<^verbatim>\<open>not x\<close> and \<^verbatim>\<open>if x\<close>.\<close>

fun truthy :: "json \<Rightarrow> bool" where
  "truthy JNull = False"
| "truthy (JBool b) = b"
| "truthy (JNum n) = (n \<noteq> 0)"
| "truthy (JStr s) = (s \<noteq> [])"
| "truthy (JArr xs) = (xs \<noteq> [])"
| "truthy (JObj m) = (m \<noteq> Map.empty)"

text \<open>
  \<^verbatim>\<open>not config_data.get(key)\<close> on a dict: \<^verbatim>\<open>get\<close> gives \<^verbatim>\<open>None\<close> for a
  missing key, and \<^verbatim>\<open>None\<close> is false.
\<close>

definition not_get :: "dict \<Rightarrow> string \<Rightarrow> bool" where
  "not_get d k = (case d k of None \<Rightarrow> True | Some v \<Rightarrow> \<not> truthy v)"

section \<open>Strings\<close>

text \<open>
  A \<^typ>\<open>string\<close> is a list of characters, one per code point of the Python
  \<^verbatim>\<open>str\<close> (code points below 256). \<^verbatim>\<open>str.strip()\<close> removes the characters for
  which \<^verbatim>\<open>str.isspace\<close> holds from both ends; \<^verbatim>\<open>str.lower()\<close> is given on the
  ASCII letters, the only ones that lower-case to a letter of an accepted answer.
\<close>

definition isspace :: "char \<Rightarrow> bool" where
  "isspace c = (c \<in> set [CHR 0x09, CHR 0x0A, CHR 0x0B, CHR 0x0C, CHR 0x0D,
                          CHR 0x1C, CHR 0x1D, CHR 0x1E, CHR 0x1F, CHR 0x20,
                          CHR 0x85, CHR 0xA0])"

definition strip :: "string \<Rightarrow> string" where
  "strip s = rev (dropWhile isspace (rev (dropWhile isspace s)))"

definition lower_char :: "char \<Rightarrow> char" where
  "lower_char c =
     (case map_of (zip ''ABCDEFGHIJKLMNOPQRSTUVWXYZ'' ''abcdefghijklmnopqrstuvwxyz'') c of
        None \<Rightarrow> c
      | Some l \<Rightarrow> l)"

definition lower :: "string \<Rightarrow> string" where
  "lower s = map lower_char s"

text \<open>Python's \<^verbatim>\<open>sub in s\<close> on strings: \<^verbatim>\<open>sub\<close> occurs in \<^verbatim>\<open>s\<close> as a contiguous run.\<close>

fun contains :: "string \<Rightarrow> string \<Rightarrow> bool" where
  "contains sub [] = (sub = [])"
| "contains sub (c # cs) = (take (length sub) (c # cs) = sub \<or> contains sub cs)"

section \<open>The world around load\_key\<close>

text \<open>
  What reading Key.json gives: the file is missing (\<^verbatim>\<open>os.path.exists\<close> is false), its
  bytes are not UTF-8 (reading raises \<^verbatim>\<open>UnicodeDecodeError\<close>), its text is not JSON
  (\<^verbatim>\<open>json.load\<close> raises \<^verbatim>\<open>JSONDecodeError\<close>), or it holds a JSON value.
\<close>

datatype keyfile = Missing | Undecodable | NotJson | Json json

datatype exn = AttributeError | TypeError | ValueError | UnicodeDecodeError

text \<open>
  The console is the list of lines the user has typed and the program has not read yet.
  A call of \<^verbatim>\<open>input\<close> or \<^verbatim>\<open>getpass\<close> takes the first line; with no line left the
  program is blocked in that call, which is the outcome \<open>Awaiting\<close>.
\<close>

datatype 'a outcome = Raised exn | Awaiting | Returned 'a

definition obind :: "'a outcome \<Rightarrow> ('a \<Rightarrow> 'b outcome) \<Rightarrow> 'b outcome" where
  "obind r f = (case r of Raised e \<Rightarrow> Raised e | Awaiting \<Rightarrow> Awaiting | Returned x \<Rightarrow> f x)"

text \<open>What the program shows on the terminal, one event per \<^verbatim>\<open>print\<close> or prompt.\<close>

datatype event =
    Warn_corrupted
  | Key_not_found
  | Getpass_prompt
  | Env_not_found
  | Input_prompt
  | Selected_intl
  | Selected_cn
  | Invalid_input
  | Saved
  | Write_error
  | Loaded
  | Warn_incomplete

text \<open>The two attributes of the \<^verbatim>\<open>dashscope\<close> module that \<^verbatim>\<open>load_key\<close> assigns.\<close>

record sdk =
  api_key :: "string option"
  api_base :: "string option"

text \<open>
  Writing Key.json can fail at two places. When \<open>fs_writable\<close> is false,
  \<^verbatim>\<open>os.makedirs\<close> or \<^verbatim>\<open>open(..., 'w')\<close> fails and the file is as it was. When
  \<open>disk_full\<close> is true, \<^verbatim>\<open>open(..., 'w')\<close> succeeds, which empties the file, and
  \<^verbatim>\<open>json.dump\<close> or the flush at the end of the \<^verbatim>\<open>with\<close> block then fails.
\<close>

record world =
  key_file :: keyfile
  fs_writable :: bool
  disk_full :: bool
  environ :: "string \<Rightarrow> string option"
  dashscope :: "sdk option"
  console :: "string list"
  terminal :: "event list"

definition emit :: "event \<Rightarrow> world \<Rightarrow> world" where
  "emit e w = w\<lparr>terminal := terminal w @ [e]\<rparr>"

section \<open>Constants\<close>

definition API_KEY_KEY :: string where
  "API_KEY_KEY = ''DASHSCOPE_API_KEY''"

definition OPENAI_COMPAT_URL_KEY :: string where
  "OPENAI_COMPAT_URL_KEY = ''DASHSCOPE_API_BASE''"

definition SDK_URL_KEY :: string where
  "SDK_URL_KEY = ''DASHSCOPE_BASE_HTTP_API_URL''"

section \<open>\_prompt\_for\_environment\<close>

text \<open>
  The \<^verbatim>\<open>while True\<close> loop reads one line per round, so it is a recursion on the lines
  of the console. It returns the choice, the lines left and the terminal.
\<close>

fun prompt_loop :: "string list \<Rightarrow> event list \<Rightarrow> (string \<times> string list \<times> event list) outcome" where
  "prompt_loop [] out = Awaiting"
| "prompt_loop (l # ls) out =
     (let response = lower (strip l) in
      if response \<in> set [''y'', ''yes''] then
        Returned (''intl'', ls, out @ [Input_prompt, Selected_intl])
      else if response \<in> set [''n'', ''no''] then
        Returned (''cn'', ls, out @ [Input_prompt, Selected_cn])
      else prompt_loop ls (out @ [Input_prompt, Invalid_input]))"

definition prompt_for_environment :: "world \<Rightarrow> (string \<times> world) outcome" where
  "prompt_for_environment w =
     obind (prompt_loop (console w) (terminal w))
       (\<lambda>(choice, ls, out). Returned (choice, w\<lparr>console := ls, terminal := out\<rparr>))"

text \<open>\<^verbatim>\<open>getpass.getpass\<close>: one line from the console, not echoed.\<close>

definition getpass :: "world \<Rightarrow> (string \<times> world) outcome" where
  "getpass w =
     (case console w of
        [] \<Rightarrow> Awaiting
      | l # ls \<Rightarrow> Returned (l, w\<lparr>console := ls, terminal := terminal w @ [Getpass_prompt]\<rparr>))"

section \<open>load\_key\<close>

text \<open>Step 1 (lines 45 to 54): read the existing configuration.\<close>

definition step1_read :: "world \<Rightarrow> (json \<times> world) outcome" where
  "step1_read w =
     (case key_file w of
        Missing \<Rightarrow> Returned (JObj Map.empty, w)
      | Undecodable \<Rightarrow> Raised UnicodeDecodeError
      | NotJson \<Rightarrow> Returned (JObj Map.empty, emit Warn_corrupted w)
      | Json v \<Rightarrow> Returned (v, w))"

text \<open>
  Step 2, the API key (lines 58 to 63). \<^verbatim>\<open>config_data.get\<close> exists on a dict only:
  on any other JSON value the attribute lookup raises \<^verbatim>\<open>AttributeError\<close>. The result
  is the dict, \<^verbatim>\<open>config_changed\<close> and the world.
\<close>

definition step2_api_key :: "json \<Rightarrow> world \<Rightarrow> (dict \<times> bool \<times> world) outcome" where
  "step2_api_key config_data w =
     (case config_data of
        JObj d \<Rightarrow>
          if not_get d API_KEY_KEY then
            obind (getpass (emit Key_not_found w))
              (\<lambda>(line, w'). let key = strip line in
                 if key \<noteq> [] then Returned (d(API_KEY_KEY \<mapsto> JStr key), True, w')
                 else Returned (d, False, w'))
          else Returned (d, False, w)
      | _ \<Rightarrow> Raised AttributeError)"

text \<open>Step 2, the two URLs (lines 66 to 76).\<close>

definition step2_urls :: "dict \<Rightarrow> bool \<Rightarrow> world \<Rightarrow> (dict \<times> bool \<times> world) outcome" where
  "step2_urls d config_changed w =
     (if not_get d OPENAI_COMPAT_URL_KEY \<or> not_get d SDK_URL_KEY then
        obind (prompt_for_environment (emit Env_not_found w))
          (\<lambda>(env_choice, w').
             if env_choice = ''intl'' then
               Returned (d(OPENAI_COMPAT_URL_KEY \<mapsto> JStr ''https://dashscope-intl.aliyuncs.com/compatible-mode/v1'',
                           SDK_URL_KEY \<mapsto> JStr ''https://dashscope-intl.aliyuncs.com/api/v1''), True, w')
             else
               Returned (d(OPENAI_COMPAT_URL_KEY \<mapsto> JStr ''https://dashscope.aliyuncs.com/compatible-mode/v1'',
                           SDK_URL_KEY \<mapsto> JStr ''https://dashscope.aliyuncs.com/api/v1''), True, w'))
      else Returned (d, config_changed, w))"

text \<open>
  Step 3 (lines 79 to 86): write the dict back when it was changed. Every failure is an
  \<^verbatim>\<open>IOError\<close>, caught and reported. A failure of \<^verbatim>\<open>makedirs\<close> or \<^verbatim>\<open>open\<close> leaves
  Key.json as it was. A failure after \<^verbatim>\<open>open(..., 'w')\<close> leaves the file that
  \<^verbatim>\<open>open\<close> has emptied, with at most a beginning of the new text in it: a text that is
  not JSON.
\<close>

definition step3_write :: "dict \<Rightarrow> bool \<Rightarrow> world \<Rightarrow> world" where
  "step3_write d config_changed w =
     (if config_changed then
        if \<not> fs_writable w then emit Write_error w
        else if disk_full w then emit Write_error (w\<lparr>key_file := NotJson\<rparr>)
        else emit Saved (w\<lparr>key_file := Json (JObj d)\<rparr>)
      else w)"

text \<open>
  \<^verbatim>\<open>os.environ[k] = v\<close> raises \<^verbatim>\<open>TypeError\<close> unless \<^verbatim>\<open>v\<close> is a \<^verbatim>\<open>str\<close>, and
  \<^verbatim>\<open>ValueError\<close> when the \<^verbatim>\<open>str\<close> holds a NUL character, which no variable of the
  process environment can hold.
\<close>

definition environ_setitem :: "string \<Rightarrow> json \<Rightarrow> world \<Rightarrow> world outcome" where
  "environ_setitem k v w =
     (case v of
        JStr s \<Rightarrow>
          if CHR 0x00 \<in> set s then Raised ValueError
          else Returned (w\<lparr>environ := (environ w)(k \<mapsto> s)\<rparr>)
      | _ \<Rightarrow> Raised TypeError)"

text \<open>The \<^verbatim>\<open>str\<close> that a module attribute holds after \<^verbatim>\<open>module.attr = v\<close>.\<close>

definition str_value :: "json \<Rightarrow> string option" where
  "str_value v = (case v of JStr s \<Rightarrow> Some s | _ \<Rightarrow> None)"

text \<open>
  Step 4 (lines 89 to 102). The test is \<^verbatim>\<open>key in config_data\<close> for the three keys.
  The three assignments to \<^verbatim>\<open>os.environ\<close> run in the order of lines 90 to 92, and the
  first that raises ends the call. The two attributes of \<^verbatim>\<open>dashscope\<close> are assigned
  after them, so the values assigned there are strings.
\<close>

definition step4_publish :: "dict \<Rightarrow> world \<Rightarrow> world outcome" where
  "step4_publish d w =
     (case (d API_KEY_KEY, d OPENAI_COMPAT_URL_KEY, d SDK_URL_KEY) of
        (Some k, Some c, Some s) \<Rightarrow>
          obind (environ_setitem API_KEY_KEY k w) (\<lambda>wa.
            obind (environ_setitem OPENAI_COMPAT_URL_KEY c wa) (\<lambda>wb.
              obind (environ_setitem SDK_URL_KEY s wb) (\<lambda>wc.
                Returned (emit Loaded
                  (wc\<lparr>dashscope := map_option (\<lambda>m. m\<lparr>api_key := str_value k, api_base := str_value s\<rparr>)
                                      (dashscope wc)\<rparr>)))))
      | _ \<Rightarrow> Returned (emit Warn_incomplete w))"

text \<open>The configuration at the end of step 2, before it is written and published.\<close>

definition resolution_pass :: "world \<Rightarrow> (dict \<times> bool \<times> world) outcome" where
  "resolution_pass w =
     obind (step1_read w) (\<lambda>(config_data, w1).
       obind (step2_api_key config_data w1) (\<lambda>(d, config_changed, w2).
         step2_urls d config_changed w2))"

definition load_key :: "world \<Rightarrow> world outcome" where
  "load_key w =
     obind (resolution_pass w) (\<lambda>(d, config_changed, w').
       step4_publish d (step3_write d config_changed w'))"

section \<open>display\_config\_summary\<close>

definition environ_get :: "(string \<Rightarrow> string option) \<Rightarrow> string \<Rightarrow> string \<Rightarrow> string" where
  "environ_get env k dflt = (case env k of None \<Rightarrow> dflt | Some v \<Rightarrow> v)"

definition env_name_of :: "string \<Rightarrow> string" where
  "env_name_of openai_compat_url =
     (if contains ''intl'' openai_compat_url then ''International''
      else if contains ''aliyuncs.com'' openai_compat_url then ''Mainland China''
      else ''Unknown'')"

text \<open>\<^verbatim>\<open>api_key[:4]\<close> is \<open>take 4\<close>; \<^verbatim>\<open>api_key[-4:]\<close> on a string longer than 4 is its last 4.\<close>

definition masked_key_of :: "string \<Rightarrow> string" where
  "masked_key_of k =
     (if length k > 8 \<and> k \<noteq> ''Not Set'' then
        take 4 k @ ''...'' @ drop (length k - 4) k
      else if k \<noteq> ''Not Set'' then ''Valid'' else ''Not Set'')"

text \<open>
  The report prints four values after fixed labels: the masked key, the environment name
  and the two URLs as they stand in the environment.
\<close>

record summary =
  masked_key :: string
  env_name :: string
  openai_compat_url :: string
  sdk_url :: string

definition display_config_summary :: "world \<Rightarrow> summary" where
  "display_config_summary w =
     \<lparr>masked_key = masked_key_of (environ_get (environ w) API_KEY_KEY ''Not Set''),
      env_name = env_name_of (environ_get (environ w) OPENAI_COMPAT_URL_KEY ''Not Set''),
      openai_compat_url = environ_get (environ w) OPENAI_COMPAT_URL_KEY ''Not Set'',
      sdk_url = environ_get (environ w) SDK_URL_KEY ''Not Set''\<rparr>"

section \<open>Basic facts\<close>

lemma key_neq [simp]:
  "API_KEY_KEY \<noteq> OPENAI_COMPAT_URL_KEY" "API_KEY_KEY \<noteq> SDK_URL_KEY"
  "OPENAI_COMPAT_URL_KEY \<noteq> API_KEY_KEY" "OPENAI_COMPAT_URL_KEY \<noteq> SDK_URL_KEY"
  "SDK_URL_KEY \<noteq> API_KEY_KEY" "SDK_URL_KEY \<noteq> OPENAI_COMPAT_URL_KEY"
  by (simp_all add: API_KEY_KEY_def OPENAI_COMPAT_URL_KEY_def SDK_URL_KEY_def)

lemma obind_simps [simp]:
  "obind (Raised e) f = Raised e" "obind Awaiting f = Awaiting" "obind (Returned x) f = f x"
  by (simp_all add: obind_def)

lemmas string_ops = lower_def strip_def isspace_def lower_char_def

text \<open>A white-space character is no letter of an answer, in either case.\<close>

lemma isspace_not_letter:
  assumes "isspace c"
  shows "lower_char c \<notin> set ''yesno''"
proof -
  from assms have
    "c = CHR 0x09 \<or> c = CHR 0x0A \<or> c = CHR 0x0B \<or> c = CHR 0x0C \<or> c = CHR 0x0D \<or>
     c = CHR 0x1C \<or> c = CHR 0x1D \<or> c = CHR 0x1E \<or> c = CHR 0x1F \<or> c = CHR 0x20 \<or>
     c = CHR 0x85 \<or> c = CHR 0xA0"
    by (simp add: isspace_def)
  then show ?thesis
    by (elim disjE) (simp_all add: lower_char_def)
qed

lemma lower_answer_ends:
  assumes "lower s \<in> {''y'', ''yes'', ''n'', ''no''}"
  shows "s \<noteq> [] \<and> \<not> isspace (hd s) \<and> \<not> isspace (last s)"
proof -
  have ne: "s \<noteq> []"
    using assms by (auto simp: lower_def)
  have "set (lower s) \<subseteq> set ''yesno''"
    using assms by auto
  then have letters: "\<forall>c\<in>set s. lower_char c \<in> set ''yesno''"
    by (auto simp: lower_def)
  have "hd s \<in> set s" and "last s \<in> set s"
    using ne by simp_all
  with letters isspace_not_letter show ?thesis
    using ne by blast
qed

lemma strip_padded:
  assumes "s \<noteq> []" "\<not> isspace (hd s)" "\<not> isspace (last s)"
    and "\<forall>c\<in>set a. isspace c" "\<forall>c\<in>set b. isspace c"
  shows "strip (a @ s @ b) = s"
proof -
  have at_front: "dropWhile isspace (a @ s @ b) = s @ b"
    using assms by (cases s) (simp_all add: dropWhile_append)
  have at_back: "dropWhile isspace (rev b @ rev s) = rev s"
    using assms by (cases s rule: rev_cases) (simp_all add: dropWhile_append)
  show ?thesis
    by (simp add: strip_def at_front at_back)
qed

section \<open>The region prompt\<close>

lemma prompt_loop_skip:
  "\<forall>l\<in>set bad. lower (strip l) \<notin> {''y'', ''yes'', ''n'', ''no''} \<Longrightarrow>
   prompt_loop (bad @ ls) out =
     prompt_loop ls (out @ concat (replicate (length bad) [Input_prompt, Invalid_input]))"
  by (induction bad arbitrary: out) (simp_all add: Let_def)

lemma prompt_loop_choice:
  "prompt_loop ls out = Returned (choice, ls', out') \<Longrightarrow> choice = ''intl'' \<or> choice = ''cn''"
  by (induction ls out rule: prompt_loop.induct) (auto simp: Let_def split: if_splits)

lemmas run_defs =
  load_key_def resolution_pass_def step1_read_def step2_api_key_def step2_urls_def
  step3_write_def step4_publish_def environ_setitem_def str_value_def not_get_def
  prompt_for_environment_def getpass_def emit_def Let_def

text \<open>
  C3. The region prompt is a function of the lines typed. A line that is \<open>y\<close> or
  \<open>yes\<close> after \<open>strip\<close> and \<open>lower\<close> returns \<open>intl\<close>, a line that is \<open>n\<close> or \<open>no\<close>
  returns \<open>cn\<close>, and every other line is answered by \<open>Invalid_input\<close> and one more round.
  There is no bound on the rounds: after any number of rejected lines the next line is
  treated as the first one was, and with rejected lines only the prompt is still waiting.
  Surrounding white space and the case of the letters do not matter. With no Key.json,
  the key \<open>sk-test1234\<close> and the answers \<open>maybe\<close>, \<open>YES\<close>, \<open>load_key\<close> rejects once and
  ends with the international endpoints.
\<close>

theorem prompt_loop_spec:
  "(lower (strip l) \<in> {''y'', ''yes''} \<longrightarrow>
      prompt_loop (l # rest) out = Returned (''intl'', rest, out @ [Input_prompt, Selected_intl]))
 \<and> (lower (strip l) \<in> {''n'', ''no''} \<longrightarrow>
      prompt_loop (l # rest) out = Returned (''cn'', rest, out @ [Input_prompt, Selected_cn]))
 \<and> (lower (strip l) \<notin> {''y'', ''yes'', ''n'', ''no''} \<longrightarrow>
      prompt_loop (l # rest) out = prompt_loop rest (out @ [Input_prompt, Invalid_input]))
 \<and> ((\<forall>b\<in>set bad. lower (strip b) \<notin> {''y'', ''yes'', ''n'', ''no''}) \<longrightarrow>
      prompt_loop (bad @ l # rest) out =
        prompt_loop (l # rest) (out @ concat (replicate (length bad) [Input_prompt, Invalid_input]))
      \<and> prompt_loop bad out = Awaiting)
 \<and> (lower s \<in> {''y'', ''yes'', ''n'', ''no''} \<and> (\<forall>c\<in>set a. isspace c) \<and> (\<forall>c\<in>set b. isspace c) \<longrightarrow>
      lower (strip (a @ s @ b)) = lower s)
 \<and> load_key \<lparr>key_file = Missing, fs_writable = True, disk_full = False, environ = Map.empty, dashscope = None,
              console = [''sk-test1234'', ''maybe'', ''YES''], terminal = []\<rparr> =
     Returned \<lparr>key_file = Json (JObj [API_KEY_KEY \<mapsto> JStr ''sk-test1234'',
          OPENAI_COMPAT_URL_KEY \<mapsto> JStr ''https://dashscope-intl.aliyuncs.com/compatible-mode/v1'',
          SDK_URL_KEY \<mapsto> JStr ''https://dashscope-intl.aliyuncs.com/api/v1'']),
        fs_writable = True, disk_full = False,
        environ = [API_KEY_KEY \<mapsto> ''sk-test1234'',
          OPENAI_COMPAT_URL_KEY \<mapsto> ''https://dashscope-intl.aliyuncs.com/compatible-mode/v1'',
          SDK_URL_KEY \<mapsto> ''https://dashscope-intl.aliyuncs.com/api/v1''],
        dashscope = None, console = [],
        terminal = [Key_not_found, Getpass_prompt, Env_not_found, Input_prompt, Invalid_input,
          Input_prompt, Selected_intl, Saved, Loaded]\<rparr>"
proof (intro conjI impI)
  show "load_key \<lparr>key_file = Missing, fs_writable = True, disk_full = False, environ = Map.empty, dashscope = None,
              console = [''sk-test1234'', ''maybe'', ''YES''], terminal = []\<rparr> =
     Returned \<lparr>key_file = Json (JObj [API_KEY_KEY \<mapsto> JStr ''sk-test1234'',
          OPENAI_COMPAT_URL_KEY \<mapsto> JStr ''https://dashscope-intl.aliyuncs.com/compatible-mode/v1'',
          SDK_URL_KEY \<mapsto> JStr ''https://dashscope-intl.aliyuncs.com/api/v1'']),
        fs_writable = True, disk_full = False,
        environ = [API_KEY_KEY \<mapsto> ''sk-test1234'',
          OPENAI_COMPAT_URL_KEY \<mapsto> ''https://dashscope-intl.aliyuncs.com/compatible-mode/v1'',
          SDK_URL_KEY \<mapsto> ''https://dashscope-intl.aliyuncs.com/api/v1''],
        dashscope = None, console = [],
        terminal = [Key_not_found, Getpass_prompt, Env_not_found, Input_prompt, Invalid_input,
          Input_prompt, Selected_intl, Saved, Loaded]\<rparr>"
    by (simp add: run_defs string_ops)
next
  assume "lower (strip l) \<in> {''y'', ''yes''}"
  then show "prompt_loop (l # rest) out = Returned (''intl'', rest, out @ [Input_prompt, Selected_intl])"
    by (auto simp: Let_def)
next
  assume "lower (strip l) \<in> {''n'', ''no''}"
  then show "prompt_loop (l # rest) out = Returned (''cn'', rest, out @ [Input_prompt, Selected_cn])"
    by (auto simp: Let_def)
next
  assume "lower (strip l) \<notin> {''y'', ''yes'', ''n'', ''no''}"
  then show "prompt_loop (l # rest) out = prompt_loop rest (out @ [Input_prompt, Invalid_input])"
    by (auto simp: Let_def)
next
  assume bad: "\<forall>b\<in>set bad. lower (strip b) \<notin> {''y'', ''yes'', ''n'', ''no''}"
  then show "prompt_loop (bad @ l # rest) out =
        prompt_loop (l # rest) (out @ concat (replicate (length bad) [Input_prompt, Invalid_input]))"
    by (rule prompt_loop_skip)
  from prompt_loop_skip [OF bad, of "[]" out] show "prompt_loop bad out = Awaiting"
    by simp
next
  assume "lower s \<in> {''y'', ''yes'', ''n'', ''no''} \<and> (\<forall>c\<in>set a. isspace c) \<and> (\<forall>c\<in>set b. isspace c)"
  then show "lower (strip (a @ s @ b)) = lower s"
    using lower_answer_ends [of s] strip_padded [of s a b] by simp
qed

theorem prompt_loop_spec_witness:
  "prompt_loop [''maybe'', ''YES''] [] =
     Returned (''intl'', [], [Input_prompt, Invalid_input, Input_prompt, Selected_intl])
 \<and> prompt_loop [''maybe''] [] = Awaiting
 \<and> prompt_loop [''No'', ''y''] [] = Returned (''cn'', [''y''], [Input_prompt, Selected_cn])
 \<and> lower (strip ''  yEs  '') = ''yes''"
proof -
  have h0: "lower (strip ''No'') \<in> {''n'', ''no''}"
    by (simp add: string_ops)
  from prompt_loop_spec [of "''No''" "[''y'']" "[]" "[]" "[]" "[]" "[]"] h0
  have n: "prompt_loop [''No'', ''y''] [] = Returned (''cn'', [''y''], [Input_prompt, Selected_cn])"
    by (metis append_Nil)
  have h1: "lower (strip ''YES'') \<in> {''y'', ''yes''}"
    by (simp add: string_ops)
  have h2: "\<forall>b\<in>set [''maybe'']. lower (strip b) \<notin> {''y'', ''yes'', ''n'', ''no''}"
    by (simp add: string_ops)
  have h3: "lower ''yEs'' \<in> {''y'', ''yes'', ''n'', ''no''} \<and> (\<forall>c\<in>set ''  ''. isspace c)
             \<and> (\<forall>c\<in>set ''  ''. isspace c)"
    by (simp add: string_ops)
  have h4: "lower ''yEs'' = ''yes''"
    by (simp add: string_ops)
  note spec = prompt_loop_spec [of "''YES''" "[]" "[Input_prompt, Invalid_input]" "[''maybe'']" "''yEs''" "''  ''" "''  ''"]
  note skip = prompt_loop_spec [of "''YES''" "[]" "[]" "[''maybe'']" "''yEs''" "''  ''" "''  ''"]
  from spec h1 have a: "prompt_loop [''YES''] [Input_prompt, Invalid_input] =
     Returned (''intl'', [], [Input_prompt, Invalid_input, Input_prompt, Selected_intl])"
    by simp
  from skip h2 have b: "prompt_loop [''maybe'', ''YES''] [] = prompt_loop [''YES''] [Input_prompt, Invalid_input]"
    and c: "prompt_loop [''maybe''] [] = Awaiting"
    by simp_all
  from spec h3 h4 have d: "lower (strip ''  yEs  '') = ''yes''"
    by simp
  from a b c d n show ?thesis
    by simp
qed

section \<open>The summary\<close>

lemma contains_iff: "contains sub s \<longleftrightarrow> (\<exists>p q. s = p @ sub @ q)"
proof (induction s)
  case Nil
  then show ?case by auto
next
  case (Cons c cs)
  have here: "take (length sub) (c # cs) = sub \<longleftrightarrow> (\<exists>q. c # cs = sub @ q)"
    by (metis append_eq_conv_conj append_take_drop_id)
  have split: "(\<exists>p q. c # cs = p @ sub @ q) \<longleftrightarrow>
      (\<exists>q. c # cs = sub @ q) \<or> (\<exists>p q. cs = p @ sub @ q)"
  proof
    assume "\<exists>p q. c # cs = p @ sub @ q"
    then obtain p q where pq: "c # cs = p @ sub @ q" by blast
    show "(\<exists>q. c # cs = sub @ q) \<or> (\<exists>p q. cs = p @ sub @ q)"
    proof (cases p)
      case Nil
      with pq show ?thesis by auto
    next
      case (Cons x p')
      with pq have "cs = p' @ sub @ q" by simp
      then show ?thesis by blast
    qed
  next
    assume "(\<exists>q. c # cs = sub @ q) \<or> (\<exists>p q. cs = p @ sub @ q)"
    then show "\<exists>p q. c # cs = p @ sub @ q"
    proof
      assume "\<exists>q. c # cs = sub @ q"
      then obtain q where "c # cs = [] @ sub @ q" by auto
      then show ?thesis by blast
    next
      assume "\<exists>p q. cs = p @ sub @ q"
      then obtain p q where "c # cs = (c # p) @ sub @ q" by auto
      then show ?thesis by blast
    qed
  qed
  show ?case
    using Cons here split by simp
qed

lemma contains_length: "contains sub s \<Longrightarrow> length sub \<le> length s"
  by (auto simp: contains_iff)

lemma masked_key_of_long:
  "length k > 8 \<Longrightarrow> masked_key_of k = take 4 k @ ''...'' @ drop (length k - 4) k"
  by (auto simp: masked_key_of_def)

lemma masked_key_of_length: "length k > 8 \<Longrightarrow> length (masked_key_of k) = 11"
  by (simp add: masked_key_of_long)

text \<open>
  C9. The environment name is found by substring tests on the value of
  \<open>DASHSCOPE_API_BASE\<close> in the environment, in this order: a value with \<open>intl\<close> somewhere
  in it gives International; otherwise a value with \<open>aliyuncs.com\<close> in it gives
  Mainland China; otherwise, and when the variable is not set, the name is Unknown.
\<close>

theorem env_name_inference:
  "(environ w OPENAI_COMPAT_URL_KEY = Some u \<longrightarrow>
      env_name (display_config_summary w) =
        (if \<exists>p q. u = p @ ''intl'' @ q then ''International''
         else if \<exists>p q. u = p @ ''aliyuncs.com'' @ q then ''Mainland China''
         else ''Unknown''))
 \<and> (environ w OPENAI_COMPAT_URL_KEY = None \<longrightarrow>
      env_name (display_config_summary w) = ''Unknown'')"
  unfolding contains_iff [symmetric]
  by (simp add: display_config_summary_def environ_get_def env_name_of_def)

theorem env_name_inference_witness:
  "env_name (display_config_summary
       \<lparr>key_file = Missing, fs_writable = True, disk_full = False,
        environ = [OPENAI_COMPAT_URL_KEY \<mapsto> ''https://dashscope.aliyuncs.com/compatible-mode/v1''],
        dashscope = None, console = [], terminal = []\<rparr>) = ''Mainland China''
 \<and> env_name (display_config_summary
       \<lparr>key_file = Missing, fs_writable = True, disk_full = False,
        environ = [OPENAI_COMPAT_URL_KEY \<mapsto> ''https://dashscope-intl.aliyuncs.com/compatible-mode/v1''],
        dashscope = None, console = [], terminal = []\<rparr>) = ''International''
 \<and> env_name (display_config_summary
       \<lparr>key_file = Missing, fs_writable = True, disk_full = False, environ = Map.empty,
        dashscope = None, console = [], terminal = []\<rparr>) = ''Unknown''"
  using env_name_inference
      [of "\<lparr>key_file = Missing, fs_writable = True, disk_full = False,
        environ = [OPENAI_COMPAT_URL_KEY \<mapsto> ''https://dashscope.aliyuncs.com/compatible-mode/v1''],
        dashscope = None, console = [], terminal = []\<rparr>"
        "''https://dashscope.aliyuncs.com/compatible-mode/v1''"]
    env_name_inference
      [of "\<lparr>key_file = Missing, fs_writable = True, disk_full = False,
        environ = [OPENAI_COMPAT_URL_KEY \<mapsto> ''https://dashscope-intl.aliyuncs.com/compatible-mode/v1''],
        dashscope = None, console = [], terminal = []\<rparr>"
        "''https://dashscope-intl.aliyuncs.com/compatible-mode/v1''"]
    env_name_inference
      [of "\<lparr>key_file = Missing, fs_writable = True, disk_full = False, environ = Map.empty,
        dashscope = None, console = [], terminal = []\<rparr>" "''''"]
  unfolding contains_iff [symmetric]
  by simp

text \<open>
  C8, as amended. A key of more than 8 characters is shown as its first 4 characters,
  three dots and its last 4 characters, so \<open>abcdefghij\<close> is shown as \<open>abcd...ghij\<close>. A key
  of at most 8 characters that is set and is not the text \<open>Not Set\<close> is shown as
  \<open>Valid\<close>. A key that is not set, and a key that is the text \<open>Not Set\<close>, are shown as
  \<open>Not Set\<close>. A key of more than 11 characters never occurs in the masked field.
\<close>

theorem masked_key_spec:
  "(environ w API_KEY_KEY = Some k \<and> length k > 8 \<longrightarrow>
      masked_key (display_config_summary w) = take 4 k @ ''...'' @ drop (length k - 4) k)
 \<and> (environ w API_KEY_KEY = Some k \<and> length k \<le> 8 \<and> k \<noteq> ''Not Set'' \<longrightarrow>
      masked_key (display_config_summary w) = ''Valid'')
 \<and> (environ w API_KEY_KEY = None \<or> environ w API_KEY_KEY = Some ''Not Set'' \<longrightarrow>
      masked_key (display_config_summary w) = ''Not Set'')
 \<and> (environ w API_KEY_KEY = Some k \<and> length k > 11 \<longrightarrow>
      \<not> contains k (masked_key (display_config_summary w)))
 \<and> masked_key_of ''abcdefghij'' = ''abcd...ghij''"
proof (intro conjI impI)
  assume "environ w API_KEY_KEY = Some k \<and> length k > 8"
  then show "masked_key (display_config_summary w) = take 4 k @ ''...'' @ drop (length k - 4) k"
    by (simp add: display_config_summary_def environ_get_def masked_key_of_long)
next
  assume "environ w API_KEY_KEY = Some k \<and> length k \<le> 8 \<and> k \<noteq> ''Not Set''"
  then show "masked_key (display_config_summary w) = ''Valid''"
    by (simp add: display_config_summary_def environ_get_def masked_key_of_def)
next
  assume "environ w API_KEY_KEY = None \<or> environ w API_KEY_KEY = Some ''Not Set''"
  then show "masked_key (display_config_summary w) = ''Not Set''"
    by (auto simp: display_config_summary_def environ_get_def masked_key_of_def)
next
  assume k: "environ w API_KEY_KEY = Some k \<and> length k > 11"
  then have m: "masked_key (display_config_summary w) = masked_key_of k"
    by (simp add: display_config_summary_def environ_get_def)
  from k have "length (masked_key_of k) = 11"
    by (simp add: masked_key_of_length)
  with k contains_length [of k "masked_key_of k"] m
  show "\<not> contains k (masked_key (display_config_summary w))"
    by auto
next
  show "masked_key_of ''abcdefghij'' = ''abcd...ghij''"
    by (simp add: masked_key_of_def)
qed

theorem masked_key_spec_witness:
  "masked_key (display_config_summary
       \<lparr>key_file = Missing, fs_writable = True, disk_full = False, environ = [API_KEY_KEY \<mapsto> ''sk-0123456789abcdef''],
        dashscope = None, console = [], terminal = []\<rparr>) = ''sk-0...cdef''
 \<and> \<not> contains ''sk-0123456789abcdef'' (masked_key (display_config_summary
       \<lparr>key_file = Missing, fs_writable = True, disk_full = False, environ = [API_KEY_KEY \<mapsto> ''sk-0123456789abcdef''],
        dashscope = None, console = [], terminal = []\<rparr>))
 \<and> masked_key (display_config_summary
       \<lparr>key_file = Missing, fs_writable = True, disk_full = False, environ = [API_KEY_KEY \<mapsto> ''abcde''],
        dashscope = None, console = [], terminal = []\<rparr>) = ''Valid''
 \<and> masked_key (display_config_summary
       \<lparr>key_file = Missing, fs_writable = True, disk_full = False, environ = Map.empty,
        dashscope = None, console = [], terminal = []\<rparr>) = ''Not Set''"
  using masked_key_spec
      [of "\<lparr>key_file = Missing, fs_writable = True, disk_full = False, environ = [API_KEY_KEY \<mapsto> ''sk-0123456789abcdef''],
        dashscope = None, console = [], terminal = []\<rparr>" "''sk-0123456789abcdef''"]
    masked_key_spec
      [of "\<lparr>key_file = Missing, fs_writable = True, disk_full = False, environ = [API_KEY_KEY \<mapsto> ''abcde''],
        dashscope = None, console = [], terminal = []\<rparr>" "''abcde''"]
    masked_key_spec
      [of "\<lparr>key_file = Missing, fs_writable = True, disk_full = False, environ = Map.empty,
        dashscope = None, console = [], terminal = []\<rparr>" "''''"]
  by simp

text \<open>
  C8 as it was stated fails on a key that is set to the text \<open>Not Set\<close>: it has 7
  characters and is shown as \<open>Not Set\<close>, not as \<open>Valid\<close>, and the field then shows the
  whole key. So does the 11-character key \<open>abcd...wxyz\<close>.
\<close>

theorem masked_key_counterexample:
  "masked_key (display_config_summary
       \<lparr>key_file = Missing, fs_writable = True, disk_full = False, environ = [API_KEY_KEY \<mapsto> ''Not Set''],
        dashscope = None, console = [], terminal = []\<rparr>) = ''Not Set''
 \<and> length ''Not Set'' \<le> 8
 \<and> ''Not Set'' \<noteq> ''Valid''
 \<and> masked_key (display_config_summary
       \<lparr>key_file = Missing, fs_writable = True, disk_full = False, environ = [API_KEY_KEY \<mapsto> ''abcd...wxyz''],
        dashscope = None, console = [], terminal = []\<rparr>) = ''abcd...wxyz''"
  by (simp add: display_config_summary_def environ_get_def masked_key_of_def)

section \<open>The steps of load\_key\<close>

lemma emit_fields [simp]:
  "key_file (emit e w) = key_file w" "fs_writable (emit e w) = fs_writable w"
  "disk_full (emit e w) = disk_full w"
  "environ (emit e w) = environ w" "dashscope (emit e w) = dashscope w"
  "console (emit e w) = console w" "terminal (emit e w) = terminal w @ [e]"
  by (simp_all add: emit_def)

lemma prompt_for_environment_frame:
  assumes "prompt_for_environment w = Returned (choice, w')"
  shows "key_file w' = key_file w \<and> fs_writable w' = fs_writable w \<and> disk_full w' = disk_full w
       \<and> environ w' = environ w \<and> dashscope w' = dashscope w
       \<and> (choice = ''intl'' \<or> choice = ''cn'')"
proof (cases "prompt_loop (console w) (terminal w)")
  case (Raised e)
  with assms show ?thesis by (simp add: prompt_for_environment_def)
next
  case Awaiting
  with assms show ?thesis by (simp add: prompt_for_environment_def)
next
  case (Returned r)
  obtain c ls out where r: "r = (c, ls, out)" by (cases r)
  with Returned assms have "choice = c" and "w' = w\<lparr>console := ls, terminal := out\<rparr>"
    by (simp_all add: prompt_for_environment_def)
  with Returned r prompt_loop_choice [of "console w" "terminal w" c ls out] show ?thesis
    by simp
qed

lemma step2_api_key_present:
  "\<not> not_get d API_KEY_KEY \<Longrightarrow> step2_api_key (JObj d) w = Returned (d, False, w)"
  by (simp add: step2_api_key_def)

lemma step2_api_key_prompt:
  "not_get d API_KEY_KEY \<Longrightarrow>
   step2_api_key (JObj d) w =
     (case console w of
        [] \<Rightarrow> Awaiting
      | l # ls \<Rightarrow>
          Returned (if strip l \<noteq> [] then d(API_KEY_KEY \<mapsto> JStr (strip l)) else d, strip l \<noteq> [],
                    w\<lparr>console := ls, terminal := terminal w @ [Key_not_found, Getpass_prompt]\<rparr>))"
  by (simp add: step2_api_key_def getpass_def emit_def Let_def split: list.splits)

lemma step2_api_key_frame:
  assumes "step2_api_key (JObj d) w = Returned (d', ch, w')"
  shows "(\<forall>k. k \<noteq> API_KEY_KEY \<longrightarrow> d' k = d k) \<and> key_file w' = key_file w
       \<and> fs_writable w' = fs_writable w \<and> disk_full w' = disk_full w
       \<and> environ w' = environ w \<and> dashscope w' = dashscope w"
proof (cases "not_get d API_KEY_KEY")
  case False
  with assms show ?thesis by (simp add: step2_api_key_present)
next
  case True
  with assms show ?thesis
    by (auto simp: step2_api_key_prompt split: list.splits if_splits)
qed

lemma step2_urls_present:
  "\<not> not_get d OPENAI_COMPAT_URL_KEY \<Longrightarrow> \<not> not_get d SDK_URL_KEY \<Longrightarrow>
   step2_urls d ch w = Returned (d, ch, w)"
  by (simp add: step2_urls_def)

lemma step2_urls_prompt:
  "not_get d OPENAI_COMPAT_URL_KEY \<or> not_get d SDK_URL_KEY \<Longrightarrow>
   step2_urls d ch w =
     obind (prompt_for_environment (emit Env_not_found w))
       (\<lambda>(env_choice, w').
          Returned (if env_choice = ''intl'' then
               d(OPENAI_COMPAT_URL_KEY \<mapsto> JStr ''https://dashscope-intl.aliyuncs.com/compatible-mode/v1'',
                 SDK_URL_KEY \<mapsto> JStr ''https://dashscope-intl.aliyuncs.com/api/v1'')
             else
               d(OPENAI_COMPAT_URL_KEY \<mapsto> JStr ''https://dashscope.aliyuncs.com/compatible-mode/v1'',
                 SDK_URL_KEY \<mapsto> JStr ''https://dashscope.aliyuncs.com/api/v1''), True, w'))"
  by (cases "prompt_for_environment (emit Env_not_found w)") (auto simp: step2_urls_def)

lemma step2_urls_cases:
  assumes "step2_urls d ch w = Returned (d', ch', w')"
  shows "(d' = d \<and> ch' = ch \<and> w' = w \<and> \<not> not_get d OPENAI_COMPAT_URL_KEY \<and> \<not> not_get d SDK_URL_KEY)
       \<or> (prompt_for_environment (emit Env_not_found w) = Returned (''intl'', w') \<and> ch' \<and>
           d' = d(OPENAI_COMPAT_URL_KEY \<mapsto> JStr ''https://dashscope-intl.aliyuncs.com/compatible-mode/v1'',
                  SDK_URL_KEY \<mapsto> JStr ''https://dashscope-intl.aliyuncs.com/api/v1''))
       \<or> (prompt_for_environment (emit Env_not_found w) = Returned (''cn'', w') \<and> ch' \<and>
           d' = d(OPENAI_COMPAT_URL_KEY \<mapsto> JStr ''https://dashscope.aliyuncs.com/compatible-mode/v1'',
                  SDK_URL_KEY \<mapsto> JStr ''https://dashscope.aliyuncs.com/api/v1''))"
proof (cases "not_get d OPENAI_COMPAT_URL_KEY \<or> not_get d SDK_URL_KEY")
  case False
  with assms show ?thesis by (simp add: step2_urls_present)
next
  case True
  show ?thesis
  proof (cases "prompt_for_environment (emit Env_not_found w)")
    case (Raised e)
    with assms True show ?thesis by (simp add: step2_urls_prompt)
  next
    case Awaiting
    with assms True show ?thesis by (simp add: step2_urls_prompt)
  next
    case (Returned r)
    obtain c w2 where r: "r = (c, w2)" by (cases r)
    from Returned r prompt_for_environment_frame have "c = ''intl'' \<or> c = ''cn''"
      by blast
    with assms True Returned r show ?thesis
      by (auto simp: step2_urls_prompt)
  qed
qed

lemma step2_urls_frame:
  assumes "step2_urls d ch w = Returned (d', ch', w')"
  shows "(\<forall>k. k \<noteq> OPENAI_COMPAT_URL_KEY \<longrightarrow> k \<noteq> SDK_URL_KEY \<longrightarrow> d' k = d k)
       \<and> key_file w' = key_file w \<and> fs_writable w' = fs_writable w \<and> disk_full w' = disk_full w
       \<and> environ w' = environ w \<and> dashscope w' = dashscope w"
  using step2_urls_cases [OF assms]
proof (elim disjE conjE)
  assume "d' = d" "w' = w"
  then show ?thesis by simp
next
  assume p: "prompt_for_environment (emit Env_not_found w) = Returned (''intl'', w')"
    and d': "d' = d(OPENAI_COMPAT_URL_KEY \<mapsto> JStr ''https://dashscope-intl.aliyuncs.com/compatible-mode/v1'',
                  SDK_URL_KEY \<mapsto> JStr ''https://dashscope-intl.aliyuncs.com/api/v1'')"
  from prompt_for_environment_frame [OF p] d' show ?thesis by simp
next
  assume p: "prompt_for_environment (emit Env_not_found w) = Returned (''cn'', w')"
    and d': "d' = d(OPENAI_COMPAT_URL_KEY \<mapsto> JStr ''https://dashscope.aliyuncs.com/compatible-mode/v1'',
                  SDK_URL_KEY \<mapsto> JStr ''https://dashscope.aliyuncs.com/api/v1'')"
  from prompt_for_environment_frame [OF p] d' show ?thesis by simp
qed

text \<open>After the second step both URLs are in the dict, as non-empty strings or as stored.\<close>

lemma step2_urls_truthy:
  assumes "step2_urls d ch w = Returned (d', ch', w')"
  shows "\<not> not_get d' OPENAI_COMPAT_URL_KEY \<and> \<not> not_get d' SDK_URL_KEY"
  using step2_urls_cases [OF assms] by (auto simp: not_get_def)

lemma step3_write_fields [simp]:
  "fs_writable (step3_write d ch w) = fs_writable w" "disk_full (step3_write d ch w) = disk_full w"
  "environ (step3_write d ch w) = environ w" "dashscope (step3_write d ch w) = dashscope w"
  "console (step3_write d ch w) = console w"
  by (simp_all add: step3_write_def emit_def)

text \<open>Key.json after step 3: the dict, a text that is not JSON, or what it was.\<close>

lemma step3_write_key_file:
  "key_file (step3_write d ch w) =
     (if ch \<and> fs_writable w then (if disk_full w then NotJson else Json (JObj d))
      else key_file w)"
  by (simp add: step3_write_def emit_def)

lemma step3_write_terminal:
  "terminal (step3_write d ch w) =
     (if ch then terminal w @ [if fs_writable w \<and> \<not> disk_full w then Saved else Write_error]
      else terminal w)"
  by (simp add: step3_write_def emit_def)

lemma step4_publish_complete:
  "d API_KEY_KEY = Some (JStr k) \<Longrightarrow> d OPENAI_COMPAT_URL_KEY = Some (JStr c) \<Longrightarrow>
   d SDK_URL_KEY = Some (JStr s) \<Longrightarrow>
   CHR 0x00 \<notin> set k \<Longrightarrow> CHR 0x00 \<notin> set c \<Longrightarrow> CHR 0x00 \<notin> set s \<Longrightarrow>
   step4_publish d w =
     Returned (emit Loaded
       (w\<lparr>environ := (environ w)(API_KEY_KEY \<mapsto> k, OPENAI_COMPAT_URL_KEY \<mapsto> c, SDK_URL_KEY \<mapsto> s),
          dashscope := map_option (\<lambda>m. m\<lparr>api_key := Some k, api_base := Some s\<rparr>) (dashscope w)\<rparr>))"
  by (simp add: step4_publish_def environ_setitem_def str_value_def)

lemma step4_publish_incomplete:
  "d API_KEY_KEY = None \<or> d OPENAI_COMPAT_URL_KEY = None \<or> d SDK_URL_KEY = None \<Longrightarrow>
   step4_publish d w = Returned (emit Warn_incomplete w)"
  by (auto simp: step4_publish_def split: option.splits)

lemma environ_setitem_Returned:
  "environ_setitem k v w = Returned w' \<Longrightarrow>
   key_file w' = key_file w \<and> terminal w' = terminal w \<and> dashscope w' = dashscope w"
  by (auto simp: environ_setitem_def split: json.splits if_splits)

text \<open>Step 4 does not touch Key.json and prints one line when it returns.\<close>

lemma step4_publish_Returned:
  assumes "step4_publish d w = Returned w'"
  shows "key_file w' = key_file w \<and> (\<exists>e. terminal w' = terminal w @ [e])"
proof (cases "d API_KEY_KEY = None \<or> d OPENAI_COMPAT_URL_KEY = None \<or> d SDK_URL_KEY = None")
  case True
  from step4_publish_incomplete [OF True, of w] assms show ?thesis
    by auto
next
  case False
  then obtain k c s where d: "d API_KEY_KEY = Some k" "d OPENAI_COMPAT_URL_KEY = Some c"
      "d SDK_URL_KEY = Some s"
    by auto
  with assms have run: "obind (environ_setitem API_KEY_KEY k w) (\<lambda>wa.
            obind (environ_setitem OPENAI_COMPAT_URL_KEY c wa) (\<lambda>wb.
              obind (environ_setitem SDK_URL_KEY s wb) (\<lambda>wc.
                Returned (emit Loaded
                  (wc\<lparr>dashscope := map_option (\<lambda>m. m\<lparr>api_key := str_value k, api_base := str_value s\<rparr>)
                                      (dashscope wc)\<rparr>))))) = Returned w'"
    by (simp add: step4_publish_def)
  then obtain wa where a: "environ_setitem API_KEY_KEY k w = Returned wa"
    by (cases "environ_setitem API_KEY_KEY k w") simp_all
  with run obtain wb where b: "environ_setitem OPENAI_COMPAT_URL_KEY c wa = Returned wb"
    by (cases "environ_setitem OPENAI_COMPAT_URL_KEY c wa") simp_all
  with run a obtain wc where c: "environ_setitem SDK_URL_KEY s wb = Returned wc"
    by (cases "environ_setitem SDK_URL_KEY s wb") simp_all
  with run a b have "w' = emit Loaded
      (wc\<lparr>dashscope := map_option (\<lambda>m. m\<lparr>api_key := str_value k, api_base := str_value s\<rparr>)
                          (dashscope wc)\<rparr>)"
    by simp
  with environ_setitem_Returned [OF a] environ_setitem_Returned [OF b]
    environ_setitem_Returned [OF c]
  show ?thesis
    by (simp add: emit_def)
qed

text \<open>The dict that the pass starts from: empty unless Key.json holds an object.\<close>

lemma resolution_pass_start:
  assumes "resolution_pass w = Returned (d', ch, w')"
  obtains d w1 where "step1_read w = Returned (JObj d, w1)"
    and "key_file w = Json (JObj d) \<and> w1 = w \<or>
         key_file w = Missing \<and> d = Map.empty \<and> w1 = w \<or>
         key_file w = NotJson \<and> d = Map.empty \<and> w1 = emit Warn_corrupted w"
    and "resolution_pass w = obind (step2_api_key (JObj d) w1) (\<lambda>(d2, ch2, w2). step2_urls d2 ch2 w2)"
proof (cases "key_file w")
  case Missing
  then have "step1_read w = Returned (JObj Map.empty, w)" by (simp add: step1_read_def)
  with Missing that show ?thesis by (simp add: resolution_pass_def)
next
  case Undecodable
  with assms show ?thesis by (simp add: resolution_pass_def step1_read_def)
next
  case NotJson
  then have "step1_read w = Returned (JObj Map.empty, emit Warn_corrupted w)"
    by (simp add: step1_read_def)
  with NotJson that show ?thesis by (simp add: resolution_pass_def)
next
  case (Json v)
  then have s1: "step1_read w = Returned (v, w)" by (simp add: step1_read_def)
  show ?thesis
  proof (cases v)
    case (JObj d)
    with s1 Json that show ?thesis by (simp add: resolution_pass_def)
  qed (use assms s1 in \<open>simp_all add: resolution_pass_def step2_api_key_def\<close>)
qed

section \<open>load\_key as a whole\<close>

lemma resolution_pass_frame:
  assumes "resolution_pass w = Returned (d', ch, w')"
  shows "key_file w' = key_file w \<and> fs_writable w' = fs_writable w \<and> disk_full w' = disk_full w
       \<and> environ w' = environ w \<and> dashscope w' = dashscope w"
proof -
  from assms obtain d w1 where
    w1: "key_file w = Json (JObj d) \<and> w1 = w \<or>
         key_file w = Missing \<and> d = Map.empty \<and> w1 = w \<or>
         key_file w = NotJson \<and> d = Map.empty \<and> w1 = emit Warn_corrupted w"
    and rp: "resolution_pass w = obind (step2_api_key (JObj d) w1) (\<lambda>(d2, ch2, w2). step2_urls d2 ch2 w2)"
    by (rule resolution_pass_start)
  from w1 have f1: "key_file w1 = key_file w \<and> fs_writable w1 = fs_writable w
      \<and> disk_full w1 = disk_full w \<and> environ w1 = environ w \<and> dashscope w1 = dashscope w"
    by auto
  show ?thesis
  proof (cases "step2_api_key (JObj d) w1")
    case (Raised e)
    with assms rp show ?thesis by simp
  next
    case Awaiting
    with assms rp show ?thesis by simp
  next
    case (Returned r)
    obtain d2 ch2 w2 where r: "r = (d2, ch2, w2)" by (cases r)
    from Returned r assms rp have u: "step2_urls d2 ch2 w2 = Returned (d', ch, w')"
      by simp
    from Returned r have k: "step2_api_key (JObj d) w1 = Returned (d2, ch2, w2)"
      by simp
    from step2_api_key_frame [OF k] step2_urls_frame [OF u] f1 show ?thesis
      by simp
  qed
qed




text \<open>
  Step 4 seen from the dict \<open>d\<close> at the end of the resolution pass. If the three keys are
  in \<open>d\<close> with strings that the environment can hold, \<open>load_key\<close> returns with the three
  values in the environment, and a \<open>dashscope\<close> module that is installed has its \<open>api_key\<close>
  set to the key and its \<open>api_base\<close> set to the native URL, not the compatible one; the
  last line printed is the success line. If one of the three keys is not in \<open>d\<close>,
  \<open>load_key\<close> returns too, the environment and the module are as they were, and the last
  line printed is the warning. A key that is in \<open>d\<close> with the empty string is in \<open>d\<close>.
\<close>

lemma load_key_publish_cases:
  assumes "resolution_pass w = Returned (d, ch, w1)"
  shows "(d API_KEY_KEY = Some (JStr k) \<and> d OPENAI_COMPAT_URL_KEY = Some (JStr c) \<and>
          d SDK_URL_KEY = Some (JStr s) \<and>
          CHR 0x00 \<notin> set k \<and> CHR 0x00 \<notin> set c \<and> CHR 0x00 \<notin> set s \<longrightarrow>
            (\<exists>w'. load_key w = Returned w' \<and>
               environ w' = (environ w)(API_KEY_KEY \<mapsto> k, OPENAI_COMPAT_URL_KEY \<mapsto> c,
                                          SDK_URL_KEY \<mapsto> s) \<and>
               dashscope w' = map_option (\<lambda>m. m\<lparr>api_key := Some k, api_base := Some s\<rparr>)
                                (dashscope w) \<and>
               last (terminal w') = Loaded))
       \<and> (d API_KEY_KEY = None \<or> d OPENAI_COMPAT_URL_KEY = None \<or> d SDK_URL_KEY = None \<longrightarrow>
            (\<exists>w'. load_key w = Returned w' \<and> environ w' = environ w \<and>
               dashscope w' = dashscope w \<and> last (terminal w') = Warn_incomplete))"
proof (intro conjI impI)
  note frame = resolution_pass_frame [OF assms]
  from assms have lk: "load_key w = step4_publish d (step3_write d ch w1)"
    by (simp add: load_key_def)
  {
    assume "d API_KEY_KEY = Some (JStr k) \<and> d OPENAI_COMPAT_URL_KEY = Some (JStr c) \<and>
          d SDK_URL_KEY = Some (JStr s) \<and>
          CHR 0x00 \<notin> set k \<and> CHR 0x00 \<notin> set c \<and> CHR 0x00 \<notin> set s"
    then have "step4_publish d (step3_write d ch w1) =
        Returned (emit Loaded
          ((step3_write d ch w1)\<lparr>environ := (environ (step3_write d ch w1))
               (API_KEY_KEY \<mapsto> k, OPENAI_COMPAT_URL_KEY \<mapsto> c, SDK_URL_KEY \<mapsto> s),
             dashscope := map_option (\<lambda>m. m\<lparr>api_key := Some k, api_base := Some s\<rparr>)
                            (dashscope (step3_write d ch w1))\<rparr>))"
      by (simp add: step4_publish_complete)
    with lk frame show "\<exists>w'. load_key w = Returned w' \<and>
               environ w' = (environ w)(API_KEY_KEY \<mapsto> k, OPENAI_COMPAT_URL_KEY \<mapsto> c,
                                          SDK_URL_KEY \<mapsto> s) \<and>
               dashscope w' = map_option (\<lambda>m. m\<lparr>api_key := Some k, api_base := Some s\<rparr>)
                                (dashscope w) \<and>
               last (terminal w') = Loaded"
      by simp
  }
  {
    assume "d API_KEY_KEY = None \<or> d OPENAI_COMPAT_URL_KEY = None \<or> d SDK_URL_KEY = None"
    then have "step4_publish d (step3_write d ch w1) =
        Returned (emit Warn_incomplete (step3_write d ch w1))"
      by (rule step4_publish_incomplete)
    with lk frame show "\<exists>w'. load_key w = Returned w' \<and> environ w' = environ w \<and>
               dashscope w' = dashscope w \<and> last (terminal w') = Warn_incomplete"
      by simp
  }
qed

lemma load_key_Returned:
  assumes "load_key w = Returned w'"
  obtains d' ch w1 where "resolution_pass w = Returned (d', ch, w1)"
    and "step4_publish d' (step3_write d' ch w1) = Returned w'"
proof (cases "resolution_pass w")
  case (Raised e)
  with assms show ?thesis by (simp add: load_key_def)
next
  case Awaiting
  with assms show ?thesis by (simp add: load_key_def)
next
  case (Returned r)
  obtain d' ch w1 where "r = (d', ch, w1)" by (cases r)
  with Returned assms that show ?thesis by (simp add: load_key_def)
qed

text \<open>What the pass makes of the dict of Key.json, key by key.\<close>

lemma resolution_pass_dict:
  assumes "resolution_pass w = Returned (d', ch, w')"
  obtains d d2 ch2 w1 w2 where
    "key_file w = Json (JObj d) \<or> (key_file w = Missing \<or> key_file w = NotJson) \<and> d = Map.empty"
    and "step2_api_key (JObj d) w1 = Returned (d2, ch2, w2)"
    and "step2_urls d2 ch2 w2 = Returned (d', ch, w')"
proof -
  from assms obtain d w1 where
    w1: "key_file w = Json (JObj d) \<and> w1 = w \<or>
         key_file w = Missing \<and> d = Map.empty \<and> w1 = w \<or>
         key_file w = NotJson \<and> d = Map.empty \<and> w1 = emit Warn_corrupted w"
    and rp: "resolution_pass w = obind (step2_api_key (JObj d) w1) (\<lambda>(d2, ch2, w2). step2_urls d2 ch2 w2)"
    by (rule resolution_pass_start)
  from w1 have start: "key_file w = Json (JObj d) \<or>
      (key_file w = Missing \<or> key_file w = NotJson) \<and> d = Map.empty"
    by auto
  show ?thesis
  proof (cases "step2_api_key (JObj d) w1")
    case (Raised e)
    with assms rp show ?thesis by simp
  next
    case Awaiting
    with assms rp show ?thesis by simp
  next
    case (Returned r)
    obtain d2 ch2 w2 where r: "r = (d2, ch2, w2)" by (cases r)
    with Returned assms rp have "step2_urls d2 ch2 w2 = Returned (d', ch, w')"
      by simp
    with Returned r start that show ?thesis by simp
  qed
qed

text \<open>
  C2. The step that sets the URLs either leaves the dict as it is, which it does only
  when both URLs are stored and true, or it asks the region once and sets both keys to
  the literal pair of the region it was given: never one key alone, never a URL of each
  region. Running the step again on its result changes nothing and asks nothing. Two
  runs that are given the same choice end with the same pair. The dict at the end of the
  resolution pass therefore holds the stored pair, the international pair or the
  mainland pair.
\<close>

theorem urls_set_together:
  "(step2_urls d ch w = Returned (d', ch', w') \<longrightarrow>
      (d' = d \<and> ch' = ch \<and> w' = w \<and> \<not> not_get d OPENAI_COMPAT_URL_KEY \<and> \<not> not_get d SDK_URL_KEY)
    \<or> (prompt_for_environment (emit Env_not_found w) = Returned (''intl'', w') \<and> ch' \<and>
        d' = d(OPENAI_COMPAT_URL_KEY \<mapsto> JStr ''https://dashscope-intl.aliyuncs.com/compatible-mode/v1'',
               SDK_URL_KEY \<mapsto> JStr ''https://dashscope-intl.aliyuncs.com/api/v1''))
    \<or> (prompt_for_environment (emit Env_not_found w) = Returned (''cn'', w') \<and> ch' \<and>
        d' = d(OPENAI_COMPAT_URL_KEY \<mapsto> JStr ''https://dashscope.aliyuncs.com/compatible-mode/v1'',
               SDK_URL_KEY \<mapsto> JStr ''https://dashscope.aliyuncs.com/api/v1'')))
 \<and> (step2_urls d ch w = Returned (d', ch', w') \<longrightarrow>
      step2_urls d' ch' w' = Returned (d', ch', w'))
 \<and> ((not_get d OPENAI_COMPAT_URL_KEY \<or> not_get d SDK_URL_KEY) \<and>
     (not_get e OPENAI_COMPAT_URL_KEY \<or> not_get e SDK_URL_KEY) \<and>
     prompt_for_environment (emit Env_not_found w) = Returned (choice, wa) \<and>
     prompt_for_environment (emit Env_not_found v) = Returned (choice, va) \<longrightarrow>
      (\<exists>d2 e2. step2_urls d ch w = Returned (d2, True, wa) \<and>
               step2_urls e che v = Returned (e2, True, va) \<and>
               d2 OPENAI_COMPAT_URL_KEY = e2 OPENAI_COMPAT_URL_KEY \<and>
               d2 SDK_URL_KEY = e2 SDK_URL_KEY))
 \<and> (resolution_pass ws = Returned (dr, cr, wr) \<longrightarrow>
      (\<exists>d0. key_file ws = Json (JObj d0) \<and> \<not> not_get d0 OPENAI_COMPAT_URL_KEY \<and>
            \<not> not_get d0 SDK_URL_KEY \<and> dr OPENAI_COMPAT_URL_KEY = d0 OPENAI_COMPAT_URL_KEY \<and>
            dr SDK_URL_KEY = d0 SDK_URL_KEY)
    \<or> (dr OPENAI_COMPAT_URL_KEY = Some (JStr ''https://dashscope-intl.aliyuncs.com/compatible-mode/v1'') \<and>
        dr SDK_URL_KEY = Some (JStr ''https://dashscope-intl.aliyuncs.com/api/v1''))
    \<or> (dr OPENAI_COMPAT_URL_KEY = Some (JStr ''https://dashscope.aliyuncs.com/compatible-mode/v1'') \<and>
        dr SDK_URL_KEY = Some (JStr ''https://dashscope.aliyuncs.com/api/v1'')))"
proof (intro conjI impI)
  assume "step2_urls d ch w = Returned (d', ch', w')"
  then show "(d' = d \<and> ch' = ch \<and> w' = w \<and> \<not> not_get d OPENAI_COMPAT_URL_KEY \<and> \<not> not_get d SDK_URL_KEY)
    \<or> (prompt_for_environment (emit Env_not_found w) = Returned (''intl'', w') \<and> ch' \<and>
        d' = d(OPENAI_COMPAT_URL_KEY \<mapsto> JStr ''https://dashscope-intl.aliyuncs.com/compatible-mode/v1'',
               SDK_URL_KEY \<mapsto> JStr ''https://dashscope-intl.aliyuncs.com/api/v1''))
    \<or> (prompt_for_environment (emit Env_not_found w) = Returned (''cn'', w') \<and> ch' \<and>
        d' = d(OPENAI_COMPAT_URL_KEY \<mapsto> JStr ''https://dashscope.aliyuncs.com/compatible-mode/v1'',
               SDK_URL_KEY \<mapsto> JStr ''https://dashscope.aliyuncs.com/api/v1''))"
    by (rule step2_urls_cases)
next
  assume "step2_urls d ch w = Returned (d', ch', w')"
  from step2_urls_truthy [OF this] show "step2_urls d' ch' w' = Returned (d', ch', w')"
    by (simp add: step2_urls_present)
next
  assume a: "(not_get d OPENAI_COMPAT_URL_KEY \<or> not_get d SDK_URL_KEY) \<and>
     (not_get e OPENAI_COMPAT_URL_KEY \<or> not_get e SDK_URL_KEY) \<and>
     prompt_for_environment (emit Env_not_found w) = Returned (choice, wa) \<and>
     prompt_for_environment (emit Env_not_found v) = Returned (choice, va)"
  then have "not_get d OPENAI_COMPAT_URL_KEY \<or> not_get d SDK_URL_KEY"
    and "not_get e OPENAI_COMPAT_URL_KEY \<or> not_get e SDK_URL_KEY"
    by simp_all
  from step2_urls_prompt [OF this(1), of ch w] step2_urls_prompt [OF this(2), of che v] a
  show "\<exists>d2 e2. step2_urls d ch w = Returned (d2, True, wa) \<and>
               step2_urls e che v = Returned (e2, True, va) \<and>
               d2 OPENAI_COMPAT_URL_KEY = e2 OPENAI_COMPAT_URL_KEY \<and>
               d2 SDK_URL_KEY = e2 SDK_URL_KEY"
    by simp
next
  assume "resolution_pass ws = Returned (dr, cr, wr)"
  then obtain d0 d2 ch2 w1 wa where
    start: "key_file ws = Json (JObj d0) \<or>
            (key_file ws = Missing \<or> key_file ws = NotJson) \<and> d0 = Map.empty"
    and k: "step2_api_key (JObj d0) w1 = Returned (d2, ch2, wa)"
    and u: "step2_urls d2 ch2 wa = Returned (dr, cr, wr)"
    by (rule resolution_pass_dict)
  from step2_api_key_frame [OF k] have same: "d2 OPENAI_COMPAT_URL_KEY = d0 OPENAI_COMPAT_URL_KEY"
      "d2 SDK_URL_KEY = d0 SDK_URL_KEY"
    by simp_all
  then have ng: "not_get d2 OPENAI_COMPAT_URL_KEY = not_get d0 OPENAI_COMPAT_URL_KEY"
      "not_get d2 SDK_URL_KEY = not_get d0 SDK_URL_KEY"
    by (simp_all add: not_get_def)
  from step2_urls_cases [OF u]
  show "(\<exists>d0. key_file ws = Json (JObj d0) \<and> \<not> not_get d0 OPENAI_COMPAT_URL_KEY \<and>
            \<not> not_get d0 SDK_URL_KEY \<and> dr OPENAI_COMPAT_URL_KEY = d0 OPENAI_COMPAT_URL_KEY \<and>
            dr SDK_URL_KEY = d0 SDK_URL_KEY)
    \<or> (dr OPENAI_COMPAT_URL_KEY = Some (JStr ''https://dashscope-intl.aliyuncs.com/compatible-mode/v1'') \<and>
        dr SDK_URL_KEY = Some (JStr ''https://dashscope-intl.aliyuncs.com/api/v1''))
    \<or> (dr OPENAI_COMPAT_URL_KEY = Some (JStr ''https://dashscope.aliyuncs.com/compatible-mode/v1'') \<and>
        dr SDK_URL_KEY = Some (JStr ''https://dashscope.aliyuncs.com/api/v1''))"
  proof (elim disjE conjE)
    assume "dr = d2" and t: "\<not> not_get d2 OPENAI_COMPAT_URL_KEY" "\<not> not_get d2 SDK_URL_KEY"
    with start same ng have "key_file ws = Json (JObj d0)"
      by (auto simp: not_get_def)
    with \<open>dr = d2\<close> t same ng show ?thesis by auto
  next
    assume "dr = d2(OPENAI_COMPAT_URL_KEY \<mapsto> JStr ''https://dashscope-intl.aliyuncs.com/compatible-mode/v1'',
               SDK_URL_KEY \<mapsto> JStr ''https://dashscope-intl.aliyuncs.com/api/v1'')"
    then show ?thesis by simp
  next
    assume "dr = d2(OPENAI_COMPAT_URL_KEY \<mapsto> JStr ''https://dashscope.aliyuncs.com/compatible-mode/v1'',
               SDK_URL_KEY \<mapsto> JStr ''https://dashscope.aliyuncs.com/api/v1'')"
    then show ?thesis by simp
  qed
qed

theorem urls_set_together_witness:
  "step2_urls
     [OPENAI_COMPAT_URL_KEY \<mapsto> JStr ''https://dashscope-intl.aliyuncs.com/compatible-mode/v1'',
      SDK_URL_KEY \<mapsto> JStr ''https://dashscope-intl.aliyuncs.com/api/v1''] True
     \<lparr>key_file = Missing, fs_writable = True, disk_full = False, environ = Map.empty, dashscope = None,
      console = [], terminal = [Env_not_found, Input_prompt, Selected_intl]\<rparr> =
   Returned
     ([OPENAI_COMPAT_URL_KEY \<mapsto> JStr ''https://dashscope-intl.aliyuncs.com/compatible-mode/v1'',
       SDK_URL_KEY \<mapsto> JStr ''https://dashscope-intl.aliyuncs.com/api/v1''], True,
      \<lparr>key_file = Missing, fs_writable = True, disk_full = False, environ = Map.empty, dashscope = None,
       console = [], terminal = [Env_not_found, Input_prompt, Selected_intl]\<rparr>)
 \<and> (\<exists>d2 e2.
      step2_urls Map.empty False
        \<lparr>key_file = Missing, fs_writable = True, disk_full = False, environ = Map.empty, dashscope = None,
         console = [''y''], terminal = []\<rparr> =
      Returned (d2, True,
        \<lparr>key_file = Missing, fs_writable = True, disk_full = False, environ = Map.empty, dashscope = None,
         console = [], terminal = [Env_not_found, Input_prompt, Selected_intl]\<rparr>) \<and>
      step2_urls [OPENAI_COMPAT_URL_KEY \<mapsto> JStr ''https://example.org/v1''] False
        \<lparr>key_file = Missing, fs_writable = False, disk_full = False, environ = Map.empty, dashscope = None,
         console = [''YES''], terminal = []\<rparr> =
      Returned (e2, True,
        \<lparr>key_file = Missing, fs_writable = False, disk_full = False, environ = Map.empty, dashscope = None,
         console = [], terminal = [Env_not_found, Input_prompt, Selected_intl]\<rparr>) \<and>
      d2 OPENAI_COMPAT_URL_KEY = e2 OPENAI_COMPAT_URL_KEY \<and>
      d2 SDK_URL_KEY = e2 SDK_URL_KEY)"
proof -
  let ?W = "\<lparr>key_file = Missing, fs_writable = True, disk_full = False, environ = Map.empty, dashscope = None,
         console = [''y''], terminal = []\<rparr>"
  let ?W2 = "\<lparr>key_file = Missing, fs_writable = True, disk_full = False, environ = Map.empty, dashscope = None,
         console = [], terminal = [Env_not_found, Input_prompt, Selected_intl]\<rparr>"
  let ?V = "\<lparr>key_file = Missing, fs_writable = False, disk_full = False, environ = Map.empty, dashscope = None,
         console = [''YES''], terminal = []\<rparr>"
  let ?V2 = "\<lparr>key_file = Missing, fs_writable = False, disk_full = False, environ = Map.empty, dashscope = None,
         console = [], terminal = [Env_not_found, Input_prompt, Selected_intl]\<rparr>"
  let ?D = "[OPENAI_COMPAT_URL_KEY \<mapsto> JStr ''https://dashscope-intl.aliyuncs.com/compatible-mode/v1'',
       SDK_URL_KEY \<mapsto> JStr ''https://dashscope-intl.aliyuncs.com/api/v1'']"
  let ?E = "[OPENAI_COMPAT_URL_KEY \<mapsto> JStr ''https://example.org/v1'']"
  have pw: "prompt_for_environment (emit Env_not_found ?W) = Returned (''intl'', ?W2)"
    by (simp add: prompt_for_environment_def emit_def string_ops)
  have pv: "prompt_for_environment (emit Env_not_found ?V) = Returned (''intl'', ?V2)"
    by (simp add: prompt_for_environment_def emit_def string_ops)
  have first: "step2_urls Map.empty False ?W = Returned (?D, True, ?W2)"
    by (simp add: step2_urls_def not_get_def pw)
  have ng: "not_get Map.empty OPENAI_COMPAT_URL_KEY \<or> not_get Map.empty SDK_URL_KEY"
      "not_get ?E OPENAI_COMPAT_URL_KEY \<or> not_get ?E SDK_URL_KEY"
    by (simp_all add: not_get_def)
  note inst = urls_set_together [where d = Map.empty and ch = False and w = ?W and d' = ?D
      and ch' = True and w' = ?W2 and e = ?E and che = False and v = ?V and va = ?V2
      and wa = ?W2 and choice = "''intl''"]
  from inst first have again: "step2_urls ?D True ?W2 = Returned (?D, True, ?W2)"
    by blast
  from inst ng pw pv have same: "\<exists>d2 e2. step2_urls Map.empty False ?W = Returned (d2, True, ?W2) \<and>
      step2_urls ?E False ?V = Returned (e2, True, ?V2) \<and>
      d2 OPENAI_COMPAT_URL_KEY = e2 OPENAI_COMPAT_URL_KEY \<and> d2 SDK_URL_KEY = e2 SDK_URL_KEY"
    by blast
  from again same show ?thesis
    by blast
qed

text \<open>
  C6. When Key.json holds an object in which one of the two URL keys is missing, the
  resolution pass, once the API-key step has returned, shows the region prompt and sets
  both URL keys from the one choice the prompt returns, whatever the other key held.
  When the stored API key is a non-empty string the key step reads nothing, so the
  region prompt is the first to read the console. With only \<open>DASHSCOPE_API_KEY = sk-x\<close>
  stored and the answer \<open>y\<close>, the terminal shows the region prompt and no key prompt.
\<close>

theorem incomplete_pair_regenerated:
  "(key_file w = Json (JObj d) \<and>
    (d OPENAI_COMPAT_URL_KEY = None \<or> d SDK_URL_KEY = None) \<and>
    step2_api_key (JObj d) w = Returned (dk, ck, wk) \<longrightarrow>
      resolution_pass w =
        obind (prompt_for_environment (emit Env_not_found wk))
          (\<lambda>(choice, w').
             Returned (if choice = ''intl'' then
                 dk(OPENAI_COMPAT_URL_KEY \<mapsto> JStr ''https://dashscope-intl.aliyuncs.com/compatible-mode/v1'',
                    SDK_URL_KEY \<mapsto> JStr ''https://dashscope-intl.aliyuncs.com/api/v1'')
               else
                 dk(OPENAI_COMPAT_URL_KEY \<mapsto> JStr ''https://dashscope.aliyuncs.com/compatible-mode/v1'',
                    SDK_URL_KEY \<mapsto> JStr ''https://dashscope.aliyuncs.com/api/v1''), True, w')))
 \<and> (key_file w = Json (JObj d) \<and> d API_KEY_KEY = Some (JStr k) \<and> k \<noteq> [] \<longrightarrow>
      step2_api_key (JObj d) w = Returned (d, False, w))
 \<and> load_key \<lparr>key_file = Json (JObj [API_KEY_KEY \<mapsto> JStr ''sk-x'']), fs_writable = True, disk_full = False,
              environ = Map.empty, dashscope = None, console = [''y''], terminal = []\<rparr> =
     Returned \<lparr>key_file = Json (JObj [API_KEY_KEY \<mapsto> JStr ''sk-x'',
          OPENAI_COMPAT_URL_KEY \<mapsto> JStr ''https://dashscope-intl.aliyuncs.com/compatible-mode/v1'',
          SDK_URL_KEY \<mapsto> JStr ''https://dashscope-intl.aliyuncs.com/api/v1'']),
        fs_writable = True, disk_full = False,
        environ = [API_KEY_KEY \<mapsto> ''sk-x'',
          OPENAI_COMPAT_URL_KEY \<mapsto> ''https://dashscope-intl.aliyuncs.com/compatible-mode/v1'',
          SDK_URL_KEY \<mapsto> ''https://dashscope-intl.aliyuncs.com/api/v1''],
        dashscope = None, console = [],
        terminal = [Env_not_found, Input_prompt, Selected_intl, Saved, Loaded]\<rparr>"
proof (intro conjI impI)
  assume a: "key_file w = Json (JObj d) \<and>
    (d OPENAI_COMPAT_URL_KEY = None \<or> d SDK_URL_KEY = None) \<and>
    step2_api_key (JObj d) w = Returned (dk, ck, wk)"
  then have k: "step2_api_key (JObj d) w = Returned (dk, ck, wk)"
    by simp
  from step2_api_key_frame [OF k] a have "dk OPENAI_COMPAT_URL_KEY = None \<or> dk SDK_URL_KEY = None"
    by auto
  then have ng: "not_get dk OPENAI_COMPAT_URL_KEY \<or> not_get dk SDK_URL_KEY"
    by (auto simp: not_get_def)
  from a have "step1_read w = Returned (JObj d, w)"
    by (simp add: step1_read_def)
  with k have "resolution_pass w = step2_urls dk ck wk"
    by (simp add: resolution_pass_def)
  with step2_urls_prompt [OF ng, of ck wk]
  show "resolution_pass w =
        obind (prompt_for_environment (emit Env_not_found wk))
          (\<lambda>(choice, w').
             Returned (if choice = ''intl'' then
                 dk(OPENAI_COMPAT_URL_KEY \<mapsto> JStr ''https://dashscope-intl.aliyuncs.com/compatible-mode/v1'',
                    SDK_URL_KEY \<mapsto> JStr ''https://dashscope-intl.aliyuncs.com/api/v1'')
               else
                 dk(OPENAI_COMPAT_URL_KEY \<mapsto> JStr ''https://dashscope.aliyuncs.com/compatible-mode/v1'',
                    SDK_URL_KEY \<mapsto> JStr ''https://dashscope.aliyuncs.com/api/v1''), True, w'))"
    by simp
next
  assume "key_file w = Json (JObj d) \<and> d API_KEY_KEY = Some (JStr k) \<and> k \<noteq> []"
  then have "\<not> not_get d API_KEY_KEY"
    by (simp add: not_get_def)
  then show "step2_api_key (JObj d) w = Returned (d, False, w)"
    by (rule step2_api_key_present)
next
  show "load_key \<lparr>key_file = Json (JObj [API_KEY_KEY \<mapsto> JStr ''sk-x'']), fs_writable = True, disk_full = False,
              environ = Map.empty, dashscope = None, console = [''y''], terminal = []\<rparr> =
     Returned \<lparr>key_file = Json (JObj [API_KEY_KEY \<mapsto> JStr ''sk-x'',
          OPENAI_COMPAT_URL_KEY \<mapsto> JStr ''https://dashscope-intl.aliyuncs.com/compatible-mode/v1'',
          SDK_URL_KEY \<mapsto> JStr ''https://dashscope-intl.aliyuncs.com/api/v1'']),
        fs_writable = True, disk_full = False,
        environ = [API_KEY_KEY \<mapsto> ''sk-x'',
          OPENAI_COMPAT_URL_KEY \<mapsto> ''https://dashscope-intl.aliyuncs.com/compatible-mode/v1'',
          SDK_URL_KEY \<mapsto> ''https://dashscope-intl.aliyuncs.com/api/v1''],
        dashscope = None, console = [],
        terminal = [Env_not_found, Input_prompt, Selected_intl, Saved, Loaded]\<rparr>"
    by (simp add: run_defs string_ops)
qed

text \<open>
  A store with the key and the native URL only: the answer \<open>n\<close> replaces the stored
  international native URL too, so the pair names one region.
\<close>

theorem incomplete_pair_regenerated_witness:
  "resolution_pass
     \<lparr>key_file = Json (JObj [API_KEY_KEY \<mapsto> JStr ''sk-x'',
          SDK_URL_KEY \<mapsto> JStr ''https://dashscope-intl.aliyuncs.com/api/v1'']),
      fs_writable = True, disk_full = False, environ = Map.empty, dashscope = None,
      console = [''what'', ''n''], terminal = []\<rparr> =
   Returned ([API_KEY_KEY \<mapsto> JStr ''sk-x'',
          SDK_URL_KEY \<mapsto> JStr ''https://dashscope.aliyuncs.com/api/v1'',
          OPENAI_COMPAT_URL_KEY \<mapsto> JStr ''https://dashscope.aliyuncs.com/compatible-mode/v1''], True,
     \<lparr>key_file = Json (JObj [API_KEY_KEY \<mapsto> JStr ''sk-x'',
          SDK_URL_KEY \<mapsto> JStr ''https://dashscope-intl.aliyuncs.com/api/v1'']),
      fs_writable = True, disk_full = False, environ = Map.empty, dashscope = None,
      console = [],
      terminal = [Env_not_found, Input_prompt, Invalid_input, Input_prompt, Selected_cn]\<rparr>)"
proof -
  let ?D = "[API_KEY_KEY \<mapsto> JStr ''sk-x'',
          SDK_URL_KEY \<mapsto> JStr ''https://dashscope-intl.aliyuncs.com/api/v1'']"
  let ?W = "\<lparr>key_file = Json (JObj ?D),
      fs_writable = True, disk_full = False, environ = Map.empty, dashscope = None,
      console = [''what'', ''n''], terminal = []\<rparr>"
  note inst = incomplete_pair_regenerated [where w = ?W and d = ?D and k = "''sk-x''"
      and ck = False]
  from inst have key: "step2_api_key (JObj ?D) ?W = Returned (?D, False, ?W)"
    by simp
  have p: "prompt_for_environment (emit Env_not_found ?W) =
      Returned (''cn'', ?W\<lparr>console := [],
        terminal := [Env_not_found, Input_prompt, Invalid_input, Input_prompt, Selected_cn]\<rparr>)"
    by (simp add: prompt_for_environment_def emit_def string_ops)
  from inst [where dk = ?D and wk = ?W] key p show ?thesis
    by (simp add: fun_upd_twist)
qed

text \<open>
  C10. When Key.json holds an object, a key other than the three recognised ones has, in
  the dict at the end of the resolution pass, the value it had in Key.json: it survives
  the merge. When \<open>load_key\<close> returns after a pass that changed nothing, nothing is
  written and Key.json holds the object it held. When the pass changed the dict and the
  write succeeds, the run that prints the line \<open>Saved\<close>, Key.json holds the dict of the
  pass, in which the key has its stored value. When Key.json cannot be opened for
  writing the error is printed and Key.json holds the object it held.
\<close>

theorem extra_keys_preserved:
  "key_file w = Json (JObj d) \<and> x \<noteq> API_KEY_KEY \<and> x \<noteq> OPENAI_COMPAT_URL_KEY \<and>
   x \<noteq> SDK_URL_KEY \<and> resolution_pass w = Returned (d', ch, wr) \<longrightarrow>
     d' x = d x
   \<and> (load_key w = Returned w' \<longrightarrow>
        (\<not> ch \<longrightarrow> key_file w' = Json (JObj d) \<and> (\<exists>e. terminal w' = terminal wr @ [e]))
      \<and> (ch \<and> fs_writable w \<and> \<not> disk_full w \<longrightarrow>
           key_file w' = Json (JObj d') \<and> (\<exists>e. terminal w' = terminal wr @ [Saved, e]))
      \<and> (ch \<and> \<not> fs_writable w \<longrightarrow>
           key_file w' = Json (JObj d) \<and> (\<exists>e. terminal w' = terminal wr @ [Write_error, e])))"
proof
  assume a: "key_file w = Json (JObj d) \<and> x \<noteq> API_KEY_KEY \<and> x \<noteq> OPENAI_COMPAT_URL_KEY \<and>
   x \<noteq> SDK_URL_KEY \<and> resolution_pass w = Returned (d', ch, wr)"
  then have rp: "resolution_pass w = Returned (d', ch, wr)"
    by simp
  then obtain d0 dk ck wk wu where
    start: "key_file w = Json (JObj d0) \<or>
            (key_file w = Missing \<or> key_file w = NotJson) \<and> d0 = Map.empty"
    and k: "step2_api_key (JObj d0) wk = Returned (dk, ck, wu)"
    and u: "step2_urls dk ck wu = Returned (d', ch, wr)"
    by (rule resolution_pass_dict)
  from start a have "d0 = d" by auto
  with step2_api_key_frame [OF k] step2_urls_frame [OF u] a have merge: "d' x = d x"
    by simp
  note frame = resolution_pass_frame [OF rp]
  have written: "load_key w = Returned w' \<longrightarrow>
        (\<not> ch \<longrightarrow> key_file w' = Json (JObj d) \<and> (\<exists>e. terminal w' = terminal wr @ [e]))
      \<and> (ch \<and> fs_writable w \<and> \<not> disk_full w \<longrightarrow>
           key_file w' = Json (JObj d') \<and> (\<exists>e. terminal w' = terminal wr @ [Saved, e]))
      \<and> (ch \<and> \<not> fs_writable w \<longrightarrow>
           key_file w' = Json (JObj d) \<and> (\<exists>e. terminal w' = terminal wr @ [Write_error, e]))"
  proof
    assume "load_key w = Returned w'"
    with rp have pub: "step4_publish d' (step3_write d' ch wr) = Returned w'"
      by (simp add: load_key_def)
    from step4_publish_Returned [OF pub] obtain e where
      kf: "key_file w' = key_file (step3_write d' ch wr)"
      and t: "terminal w' = terminal (step3_write d' ch wr) @ [e]"
      by auto
    from kf t frame a
    show "(\<not> ch \<longrightarrow> key_file w' = Json (JObj d) \<and> (\<exists>e. terminal w' = terminal wr @ [e]))
      \<and> (ch \<and> fs_writable w \<and> \<not> disk_full w \<longrightarrow>
           key_file w' = Json (JObj d') \<and> (\<exists>e. terminal w' = terminal wr @ [Saved, e]))
      \<and> (ch \<and> \<not> fs_writable w \<longrightarrow>
           key_file w' = Json (JObj d) \<and> (\<exists>e. terminal w' = terminal wr @ [Write_error, e]))"
      by (simp add: step3_write_key_file step3_write_terminal)
  qed
  from merge written
  show "d' x = d x
   \<and> (load_key w = Returned w' \<longrightarrow>
        (\<not> ch \<longrightarrow> key_file w' = Json (JObj d) \<and> (\<exists>e. terminal w' = terminal wr @ [e]))
      \<and> (ch \<and> fs_writable w \<and> \<not> disk_full w \<longrightarrow>
           key_file w' = Json (JObj d') \<and> (\<exists>e. terminal w' = terminal wr @ [Saved, e]))
      \<and> (ch \<and> \<not> fs_writable w \<longrightarrow>
           key_file w' = Json (JObj d) \<and> (\<exists>e. terminal w' = terminal wr @ [Write_error, e])))"
    by (rule conjI)
qed

text \<open>
  A store with the key and a pair \<open>note = keep\<close>: the answer \<open>y\<close> adds the two URLs, the
  write succeeds, and the written store holds the pair.
\<close>

theorem extra_keys_preserved_witness:
  "resolution_pass
     \<lparr>key_file = Json (JObj [API_KEY_KEY \<mapsto> JStr ''sk-x'', ''note'' \<mapsto> JStr ''keep'']),
      fs_writable = True, disk_full = False, environ = Map.empty, dashscope = None,
      console = [''y''], terminal = []\<rparr> =
   Returned ([API_KEY_KEY \<mapsto> JStr ''sk-x'', ''note'' \<mapsto> JStr ''keep'',
          OPENAI_COMPAT_URL_KEY \<mapsto> JStr ''https://dashscope-intl.aliyuncs.com/compatible-mode/v1'',
          SDK_URL_KEY \<mapsto> JStr ''https://dashscope-intl.aliyuncs.com/api/v1''], True,
     \<lparr>key_file = Json (JObj [API_KEY_KEY \<mapsto> JStr ''sk-x'', ''note'' \<mapsto> JStr ''keep'']),
      fs_writable = True, disk_full = False, environ = Map.empty, dashscope = None,
      console = [], terminal = [Env_not_found, Input_prompt, Selected_intl]\<rparr>)
 \<and> load_key
     \<lparr>key_file = Json (JObj [API_KEY_KEY \<mapsto> JStr ''sk-x'', ''note'' \<mapsto> JStr ''keep'']),
      fs_writable = True, disk_full = False, environ = Map.empty, dashscope = None,
      console = [''y''], terminal = []\<rparr> =
   Returned \<lparr>key_file = Json (JObj [API_KEY_KEY \<mapsto> JStr ''sk-x'', ''note'' \<mapsto> JStr ''keep'',
          OPENAI_COMPAT_URL_KEY \<mapsto> JStr ''https://dashscope-intl.aliyuncs.com/compatible-mode/v1'',
          SDK_URL_KEY \<mapsto> JStr ''https://dashscope-intl.aliyuncs.com/api/v1'']),
        fs_writable = True, disk_full = False,
        environ = [API_KEY_KEY \<mapsto> ''sk-x'',
          OPENAI_COMPAT_URL_KEY \<mapsto> ''https://dashscope-intl.aliyuncs.com/compatible-mode/v1'',
          SDK_URL_KEY \<mapsto> ''https://dashscope-intl.aliyuncs.com/api/v1''],
        dashscope = None, console = [],
        terminal = [Env_not_found, Input_prompt, Selected_intl, Saved, Loaded]\<rparr>
 \<and> [API_KEY_KEY \<mapsto> JStr ''sk-x'', ''note'' \<mapsto> JStr ''keep'',
          OPENAI_COMPAT_URL_KEY \<mapsto> JStr ''https://dashscope-intl.aliyuncs.com/compatible-mode/v1'',
          SDK_URL_KEY \<mapsto> JStr ''https://dashscope-intl.aliyuncs.com/api/v1''] ''note'' =
     Some (JStr ''keep'')
 \<and> (\<exists>e. [Env_not_found, Input_prompt, Selected_intl, Saved, Loaded] =
          [Env_not_found, Input_prompt, Selected_intl] @ [Saved, e])"
proof -
  let ?D = "[API_KEY_KEY \<mapsto> JStr ''sk-x'', ''note'' \<mapsto> JStr ''keep'']"
  let ?D' = "[API_KEY_KEY \<mapsto> JStr ''sk-x'', ''note'' \<mapsto> JStr ''keep'',
          OPENAI_COMPAT_URL_KEY \<mapsto> JStr ''https://dashscope-intl.aliyuncs.com/compatible-mode/v1'',
          SDK_URL_KEY \<mapsto> JStr ''https://dashscope-intl.aliyuncs.com/api/v1'']"
  let ?W = "\<lparr>key_file = Json (JObj ?D),
             fs_writable = True, disk_full = False, environ = Map.empty, dashscope = None,
             console = [''y''], terminal = []\<rparr>"
  let ?WR = "\<lparr>key_file = Json (JObj ?D),
             fs_writable = True, disk_full = False, environ = Map.empty, dashscope = None,
             console = [], terminal = [Env_not_found, Input_prompt, Selected_intl]\<rparr>"
  let ?W' = "\<lparr>key_file = Json (JObj ?D'),
        fs_writable = True, disk_full = False,
        environ = [API_KEY_KEY \<mapsto> ''sk-x'',
          OPENAI_COMPAT_URL_KEY \<mapsto> ''https://dashscope-intl.aliyuncs.com/compatible-mode/v1'',
          SDK_URL_KEY \<mapsto> ''https://dashscope-intl.aliyuncs.com/api/v1''],
        dashscope = None, console = [],
        terminal = [Env_not_found, Input_prompt, Selected_intl, Saved, Loaded]\<rparr>"
  have other: "''note'' \<noteq> API_KEY_KEY" "''note'' \<noteq> OPENAI_COMPAT_URL_KEY" "''note'' \<noteq> SDK_URL_KEY"
    by (simp_all add: API_KEY_KEY_def OPENAI_COMPAT_URL_KEY_def SDK_URL_KEY_def)
  have rp: "resolution_pass ?W = Returned (?D', True, ?WR)"
    using other by (simp add: run_defs string_ops)
  have lk: "load_key ?W = Returned ?W'"
    using other by (simp add: run_defs string_ops)
  have stored: "?D ''note'' = Some (JStr ''keep'')"
    using other by simp
  from extra_keys_preserved [where w = ?W and d = ?D and x = "''note''" and d' = ?D'
      and ch = True and wr = ?WR and w' = ?W'] other rp lk stored
  have "?D' ''note'' = Some (JStr ''keep'')
      \<and> (\<exists>e. [Env_not_found, Input_prompt, Selected_intl, Saved, Loaded] =
          [Env_not_found, Input_prompt, Selected_intl] @ [Saved, e])"
    by simp
  with rp lk show ?thesis
    by blast
qed

section \<open>Where load\_key leaves its documented behaviour\<close>

lemma prompt_loop_never_raises: "prompt_loop ls out \<noteq> Raised e"
  by (induction ls out rule: prompt_loop.induct) (simp_all add: Let_def)

lemma strip_subset: "set (strip s) \<subseteq> set s"
  by (auto simp: strip_def dest!: set_dropWhileD)

text \<open>
  With no Key.json, or with one that is not JSON, and no NUL character typed at the
  console, no exception leaves \<open>load_key\<close>: it starts from the empty dict and returns or
  waits for the console.
\<close>

lemma load_key_absent_or_not_json:
  assumes "key_file w = Missing \<or> key_file w = NotJson"
    and typed: "\<forall>l\<in>set (console w). CHR 0x00 \<notin> set l"
  shows "load_key w \<noteq> Raised e"
proof -
  from assms(1) obtain wk where s1: "step1_read w = Returned (JObj Map.empty, wk)"
    and cw: "console wk = console w"
    by (auto simp: step1_read_def)
  have ng: "not_get Map.empty API_KEY_KEY" by (simp add: not_get_def)
  have rp: "resolution_pass w =
      obind (step2_api_key (JObj Map.empty) wk) (\<lambda>(d, ch, wu). step2_urls d ch wu)"
    by (simp add: resolution_pass_def s1)
  show ?thesis
  proof (cases "step2_api_key (JObj Map.empty) wk")
    case (Raised e')
    then show ?thesis
      by (simp add: step2_api_key_prompt [OF ng] split: list.splits)
  next
    case Awaiting
    with rp show ?thesis by (simp add: load_key_def)
  next
    case (Returned r)
    obtain dk ck wu where r: "r = (dk, ck, wu)" by (cases r)
    with Returned have k: "step2_api_key (JObj Map.empty) wk = Returned (dk, ck, wu)"
      by simp
    have key: "dk API_KEY_KEY = None \<or> (\<exists>s. dk API_KEY_KEY = Some (JStr s) \<and> CHR 0x00 \<notin> set s)"
    proof (cases "console wk")
      case Nil
      with k show ?thesis by (simp add: step2_api_key_prompt [OF ng])
    next
      case (Cons l ls)
      with cw have "l \<in> set (console w)" by (metis list.set_intros(1))
      with typed have "CHR 0x00 \<notin> set l" by blast
      with strip_subset [of l] have "CHR 0x00 \<notin> set (strip l)" by blast
      with k Cons show ?thesis
        by (auto simp: step2_api_key_prompt [OF ng] split: if_splits)
    qed
    from step2_api_key_frame [OF k] have "dk OPENAI_COMPAT_URL_KEY = None"
      by simp
    then have ngu: "not_get dk OPENAI_COMPAT_URL_KEY \<or> not_get dk SDK_URL_KEY"
      by (simp add: not_get_def)
    from rp k have rp2: "resolution_pass w = step2_urls dk ck wu"
      by simp
    show ?thesis
    proof (cases "step2_urls dk ck wu")
      case (Raised e')
      with step2_urls_prompt [OF ngu, of ck wu]
      have "prompt_loop (console (emit Env_not_found wu)) (terminal (emit Env_not_found wu)) = Raised e'"
        by (auto simp: prompt_for_environment_def obind_def split: outcome.splits)
      with prompt_loop_never_raises show ?thesis by blast
    next
      case Awaiting
      with rp2 show ?thesis by (simp add: load_key_def)
    next
      case (Returned r2)
      obtain dr cr wa where r2: "r2 = (dr, cr, wa)" by (cases r2)
      with Returned have u: "step2_urls dk ck wu = Returned (dr, cr, wa)" by simp
      from ngu step2_urls_cases [OF u] have urls:
        "\<exists>c s. dr OPENAI_COMPAT_URL_KEY = Some (JStr c) \<and> dr SDK_URL_KEY = Some (JStr s)
            \<and> CHR 0x00 \<notin> set c \<and> CHR 0x00 \<notin> set s"
        and same: "dr API_KEY_KEY = dk API_KEY_KEY"
        by auto
      from key same have "dr API_KEY_KEY = None \<or>
          (\<exists>s. dr API_KEY_KEY = Some (JStr s) \<and> CHR 0x00 \<notin> set s)"
        by simp
      then have "\<exists>w'. step4_publish dr (step3_write dr cr wa) = Returned w'"
      proof
        assume "dr API_KEY_KEY = None"
        then show ?thesis by (simp add: step4_publish_incomplete)
      next
        assume "\<exists>s. dr API_KEY_KEY = Some (JStr s) \<and> CHR 0x00 \<notin> set s"
        with urls show ?thesis by (auto simp: step4_publish_complete)
      qed
      with rp2 u show ?thesis by (auto simp: load_key_def)
    qed
  qed
qed

text \<open>
  C5 does not hold of the code. A Key.json that holds JSON other than an object, here
  the empty array, makes \<open>config_data.get\<close> raise \<open>AttributeError\<close>, and a Key.json whose
  bytes are not UTF-8 makes the read raise \<open>UnicodeDecodeError\<close>; the handler catches
  \<open>JSONDecodeError\<close> only, so both leave \<open>load_key\<close>. So does the \<open>TypeError\<close> of
  \<open>os.environ\<close> when a stored value is true and not a string.
\<close>

theorem load_key_malformed_store_raises:
  "load_key \<lparr>key_file = Json (JArr []), fs_writable = True, disk_full = False, environ = Map.empty,
             dashscope = None, console = [''sk-test1234'', ''y''], terminal = []\<rparr> =
     Raised AttributeError
 \<and> load_key \<lparr>key_file = Undecodable, fs_writable = True, disk_full = False, environ = Map.empty,
             dashscope = None, console = [''sk-test1234'', ''y''], terminal = []\<rparr> =
     Raised UnicodeDecodeError
 \<and> load_key \<lparr>key_file = Json (JObj [API_KEY_KEY \<mapsto> JNum 123,
               OPENAI_COMPAT_URL_KEY \<mapsto> JStr ''https://dashscope.aliyuncs.com/compatible-mode/v1'',
               SDK_URL_KEY \<mapsto> JStr ''https://dashscope.aliyuncs.com/api/v1'']),
             fs_writable = True, disk_full = False, environ = Map.empty,
             dashscope = None, console = [''sk-test1234'', ''y''], terminal = []\<rparr> =
     Raised TypeError"
  by (simp add: run_defs)

text \<open>
  C7 does not hold of the code when the stored key is the empty string. The key prompt
  is shown, and after an empty answer the key is still in the dict, as the empty string;
  the test of step 4 is \<open>key in config_data\<close>, so the empty key is put into the
  environment and the success line is printed, with no warning.
\<close>

theorem load_key_empty_stored_key:
  "load_key \<lparr>key_file = Json (JObj [API_KEY_KEY \<mapsto> JStr [],
               OPENAI_COMPAT_URL_KEY \<mapsto> JStr ''https://dashscope.aliyuncs.com/compatible-mode/v1'',
               SDK_URL_KEY \<mapsto> JStr ''https://dashscope.aliyuncs.com/api/v1'']),
             fs_writable = True, disk_full = False, environ = Map.empty, dashscope = None,
             console = [''''], terminal = []\<rparr> =
   Returned \<lparr>key_file = Json (JObj [API_KEY_KEY \<mapsto> JStr [],
               OPENAI_COMPAT_URL_KEY \<mapsto> JStr ''https://dashscope.aliyuncs.com/compatible-mode/v1'',
               SDK_URL_KEY \<mapsto> JStr ''https://dashscope.aliyuncs.com/api/v1'']),
             fs_writable = True, disk_full = False,
             environ = [API_KEY_KEY \<mapsto> [],
               OPENAI_COMPAT_URL_KEY \<mapsto> ''https://dashscope.aliyuncs.com/compatible-mode/v1'',
               SDK_URL_KEY \<mapsto> ''https://dashscope.aliyuncs.com/api/v1''],
             dashscope = None, console = [],
             terminal = [Key_not_found, Getpass_prompt, Loaded]\<rparr>"
  by (simp add: run_defs string_ops)

text \<open>
  C4 does not hold of the code: a partial state is published. With the empty string
  stored for the key and a blank answer to the key prompt, the key is still empty at the
  end of the resolution pass and nothing was changed. The test of step 4 is
  \<open>key in config_data\<close>, which the empty key passes: the environment and the installed
  \<open>dashscope\<close> module get the empty key, and the success line is printed, not the
  warning.
\<close>

theorem load_key_publishes_partial_state:
  "resolution_pass
     \<lparr>key_file = Json (JObj [API_KEY_KEY \<mapsto> JStr [],
          OPENAI_COMPAT_URL_KEY \<mapsto> JStr ''https://dashscope-intl.aliyuncs.com/compatible-mode/v1'',
          SDK_URL_KEY \<mapsto> JStr ''https://dashscope-intl.aliyuncs.com/api/v1'']),
      fs_writable = True, disk_full = False, environ = Map.empty,
      dashscope = Some \<lparr>api_key = None, api_base = None\<rparr>,
      console = [''  ''], terminal = []\<rparr> =
   Returned ([API_KEY_KEY \<mapsto> JStr [],
          OPENAI_COMPAT_URL_KEY \<mapsto> JStr ''https://dashscope-intl.aliyuncs.com/compatible-mode/v1'',
          SDK_URL_KEY \<mapsto> JStr ''https://dashscope-intl.aliyuncs.com/api/v1''], False,
     \<lparr>key_file = Json (JObj [API_KEY_KEY \<mapsto> JStr [],
          OPENAI_COMPAT_URL_KEY \<mapsto> JStr ''https://dashscope-intl.aliyuncs.com/compatible-mode/v1'',
          SDK_URL_KEY \<mapsto> JStr ''https://dashscope-intl.aliyuncs.com/api/v1'']),
      fs_writable = True, disk_full = False, environ = Map.empty,
      dashscope = Some \<lparr>api_key = None, api_base = None\<rparr>,
      console = [], terminal = [Key_not_found, Getpass_prompt]\<rparr>)
 \<and> load_key
     \<lparr>key_file = Json (JObj [API_KEY_KEY \<mapsto> JStr [],
          OPENAI_COMPAT_URL_KEY \<mapsto> JStr ''https://dashscope-intl.aliyuncs.com/compatible-mode/v1'',
          SDK_URL_KEY \<mapsto> JStr ''https://dashscope-intl.aliyuncs.com/api/v1'']),
      fs_writable = True, disk_full = False, environ = Map.empty,
      dashscope = Some \<lparr>api_key = None, api_base = None\<rparr>,
      console = [''  ''], terminal = []\<rparr> =
   Returned
     \<lparr>key_file = Json (JObj [API_KEY_KEY \<mapsto> JStr [],
          OPENAI_COMPAT_URL_KEY \<mapsto> JStr ''https://dashscope-intl.aliyuncs.com/compatible-mode/v1'',
          SDK_URL_KEY \<mapsto> JStr ''https://dashscope-intl.aliyuncs.com/api/v1'']),
      fs_writable = True, disk_full = False,
      environ = [API_KEY_KEY \<mapsto> [],
          OPENAI_COMPAT_URL_KEY \<mapsto> ''https://dashscope-intl.aliyuncs.com/compatible-mode/v1'',
          SDK_URL_KEY \<mapsto> ''https://dashscope-intl.aliyuncs.com/api/v1''],
      dashscope = Some \<lparr>api_key = Some [],
          api_base = Some ''https://dashscope-intl.aliyuncs.com/api/v1''\<rparr>,
      console = [], terminal = [Key_not_found, Getpass_prompt, Loaded]\<rparr>"
  by (simp add: run_defs string_ops)

end
